theory Spec2Isabelle
  imports Complex_Main
begin

section \<open>Solar-generation preprocessing: a model of \<open>preprocessamento.py\<close>\<close>

text \<open>
  The module has four functions: \<open>listar_arquivos\<close> (file selector),
  \<open>ler_e_formatar_dados\<close> (record normalizer), \<open>processar_arquivo\<close> (cache gate) and
  \<open>compilar_dados\<close> (compiler). They act on the file system, on the console and on
  pandas tables. The model threads a \<open>world\<close> through every call, returns each Python
  exception as a value, and logs every file-system and console access in a trace, so
  that statements about what a call reads or writes can be made.

  Numbers are real numbers: the floating-point rounding of the interpreter is not
  modelled. A table cell is \<open>None\<close> where pandas holds NaN.
\<close>

subsection \<open>Paths and strings\<close>

type_synonym path = string

text \<open>\<open>posixpath.join\<close> for two components; \<open>os.path.join(a, b, c)\<close> folds it from the left.\<close>

definition path_join :: "path \<Rightarrow> path \<Rightarrow> path" where
  "path_join a b =
     (if take 1 b = ''/'' then b
      else if a = [] \<or> last a = CHR ''/'' then a @ b
      else a @ ''/'' @ b)"

text \<open>Head and tail of \<open>posixpath.split\<close>.\<close>

definition basename :: "path \<Rightarrow> path" where
  "basename p = rev (takeWhile (\<lambda>c. c \<noteq> CHR ''/'') (rev p))"

definition dirname :: "path \<Rightarrow> path" where
  "dirname p =
     (let h = rev (dropWhile (\<lambda>c. c \<noteq> CHR ''/'') (rev p))
      in if h \<noteq> [] \<and> \<not> list_all (\<lambda>c. c = CHR ''/'') h
         then rev (dropWhile (\<lambda>c. c = CHR ''/'') (rev h)) else h)"

text \<open>The substring test \<open>t in s\<close> of Python strings.\<close>

fun py_in :: "string \<Rightarrow> string \<Rightarrow> bool" where
  "py_in t [] = (t = [])"
| "py_in t (c # cs) = (take (length t) (c # cs) = t \<or> py_in t cs)"

text \<open>\<open>str.upper\<close> on ASCII text: the letters a to z move to A to Z, every other
  character stays.\<close>

definition upper_char :: "char \<Rightarrow> char" where
  "upper_char c =
     (case map_of (zip ''abcdefghijklmnopqrstuvwxyz'' ''ABCDEFGHIJKLMNOPQRSTUVWXYZ'') c of
        Some u \<Rightarrow> u
      | None \<Rightarrow> c)"

definition upper :: "string \<Rightarrow> string" where
  "upper s = map upper_char s"

subsection \<open>Exceptions, the world and its trace\<close>

datatype py_error =
    TypeError | ValueError | EOFError
  | FileNotFoundError | NotADirectoryError | IsADirectoryError | FileExistsError
  | OSError | InvalidIndexError | ParserError

datatype event =
    Exists path | Input | ListDir path | ReadFile path | MakeDirs path | WriteFile path

text \<open>
  \<open>dirs\<close> gives the entries of each directory in the order \<open>os.listdir\<close> yields them,
  \<open>files\<close> the text of each regular file, \<open>stdin\<close> the lines the console will answer
  to \<open>input()\<close>. Paths are compared as strings.
\<close>

record world =
  cwd :: path
  dirs :: "path \<Rightarrow> string list option"
  files :: "path \<Rightarrow> string option"
  stdin :: "string list"
  trace :: "event list"

type_synonym 'a io = "world \<Rightarrow> (py_error + 'a) \<times> world"

definition io_return :: "'a \<Rightarrow> 'a io" where
  "io_return x = (\<lambda>w. (Inr x, w))"

definition io_raise :: "py_error \<Rightarrow> 'a io" where
  "io_raise e = (\<lambda>w. (Inl e, w))"

definition io_bind :: "'a io \<Rightarrow> ('a \<Rightarrow> 'b io) \<Rightarrow> 'b io" where
  "io_bind m f = (\<lambda>w. case m w of (Inl e, w') \<Rightarrow> (Inl e, w') | (Inr x, w') \<Rightarrow> f x w')"

definition log_event :: "event \<Rightarrow> world \<Rightarrow> world" where
  "log_event e w = w\<lparr>trace := trace w @ [e]\<rparr>"

text \<open>\<open>os.getcwd()\<close>, \<open>os.path.exists\<close>, \<open>input\<close>, \<open>os.listdir\<close> and opening a file for
  reading.\<close>

definition getcwd :: "path io" where
  "getcwd = (\<lambda>w. (Inr (cwd w), w))"

definition path_exists :: "path \<Rightarrow> bool io" where
  "path_exists p = (\<lambda>w. (Inr (files w p \<noteq> None \<or> dirs w p \<noteq> None), log_event (Exists p) w))"

definition py_input :: "string io" where
  "py_input = (\<lambda>w. case stdin w of
       [] \<Rightarrow> (Inl EOFError, log_event Input w)
     | r # rs \<Rightarrow> (Inr r, log_event Input (w\<lparr>stdin := rs\<rparr>)))"

definition listdir :: "path \<Rightarrow> string list io" where
  "listdir p = (\<lambda>w. case dirs w p of
       Some es \<Rightarrow> (Inr es, log_event (ListDir p) w)
     | None \<Rightarrow> (Inl (if files w p \<noteq> None then NotADirectoryError else FileNotFoundError),
                log_event (ListDir p) w))"

definition read_text :: "path \<Rightarrow> string io" where
  "read_text p = (\<lambda>w. case files w p of
       Some txt \<Rightarrow> (Inr txt, log_event (ReadFile p) w)
     | None \<Rightarrow> (Inl (if dirs w p \<noteq> None then IsADirectoryError else FileNotFoundError),
                log_event (ReadFile p) w))"

text \<open>Writing: a new name is appended to the listing of its parent directory.\<close>

definition add_entry :: "path \<Rightarrow> world \<Rightarrow> world" where
  "add_entry p w =
     (case dirs w (dirname p) of
        None \<Rightarrow> w
      | Some es \<Rightarrow> if basename p \<in> set es then w
                   else w\<lparr>dirs := (dirs w)(dirname p \<mapsto> es @ [basename p])\<rparr>)"

text \<open>
  \<open>os.makedirs(p, exist_ok=True)\<close>: every missing directory on the way to \<open>p\<close> is
  created, the outermost first; a directory that exists is left alone; a regular file
  at \<open>p\<close> raises FileExistsError, a regular file on the way to it NotADirectoryError.
\<close>

definition ancestors :: "path \<Rightarrow> path list" where
  "ancestors p = [take i p. i \<leftarrow> [1..<length p], p ! i = CHR ''/''] @ [p]"

fun ensure_dirs :: "path list \<Rightarrow> world \<Rightarrow> (py_error + unit) \<times> world" where
  "ensure_dirs [] w = (Inr (), w)"
| "ensure_dirs (q # qs) w =
     (if dirs w q \<noteq> None then ensure_dirs qs w
      else if files w q \<noteq> None
           then (Inl (if qs = [] then FileExistsError else NotADirectoryError), w)
      else ensure_dirs qs (add_entry q (w\<lparr>dirs := (dirs w)(q \<mapsto> [])\<rparr>)))"

definition makedirs :: "path \<Rightarrow> unit io" where
  "makedirs p = (\<lambda>w. ensure_dirs (ancestors p) (log_event (MakeDirs p) w))"

text \<open>
  Opening \<open>p\<close> for writing and storing \<open>txt\<close>, as \<open>DataFrame.to_csv\<close> does: pandas
  first raises OSError when the parent of \<open>p\<close> is not a directory, then opening a
  directory raises IsADirectoryError; otherwise the text replaces what was there.
\<close>

definition write_text :: "path \<Rightarrow> string \<Rightarrow> unit io" where
  "write_text p txt = (\<lambda>w.
     if dirs w (dirname p) = None then (Inl OSError, log_event (WriteFile p) w)
     else if dirs w p \<noteq> None then (Inl IsADirectoryError, log_event (WriteFile p) w)
     else (Inr (), add_entry p (log_event (WriteFile p) (w\<lparr>files := (files w)(p \<mapsto> txt)\<rparr>))))"

subsection \<open>Tables\<close>

text \<open>A pandas DataFrame with numeric columns: the column labels, the row index and
  one list of cells for each row.\<close>

record 'i frame =
  columns :: "string list"
  index :: "'i list"
  cells :: "real option list list"

datatype timestamp = Timestamp nat nat nat nat nat

text \<open>
  The four pandas calls of the module whose code is not part of it are parameters:
  \<open>read_csv_raw\<close> parses the text of a raw file as
  \<open>read_csv(skiprows=11, sep=";", encoding="latin-1", index_col=0, decimal=",")\<close>
  does; \<open>to_datetime\<close> parses one index entry under the format \<open>%d/%m/%y %H:%M\<close>
  (\<open>None\<close> where pandas raises ValueError); \<open>to_csv\<close> serialises a compiled table;
  \<open>read_csv_cached\<close> parses it back as \<open>read_csv(index_col=0, parse_dates=True)\<close> does.
\<close>

record pandas =
  read_csv_raw :: "string \<Rightarrow> py_error + string frame"
  to_datetime :: "string \<Rightarrow> timestamp option"
  to_csv :: "timestamp frame \<Rightarrow> string"
  read_csv_cached :: "string \<Rightarrow> py_error + timestamp frame"

text \<open>\<open>df.rename(columns={"kW": "Energia"})\<close>\<close>

definition rename_kW :: "'i frame \<Rightarrow> 'i frame" where
  "rename_kW df = df\<lparr>columns := map (\<lambda>c. if c = ''kW'' then ''Energia'' else c) (columns df)\<rparr>"

text \<open>\<open>df /= 1000\<close>\<close>

definition div_1000 :: "'i frame \<Rightarrow> 'i frame" where
  "div_1000 df = df\<lparr>cells := map (map (map_option (\<lambda>x. x / 1000))) (cells df)\<rparr>"

text \<open>\<open>df.applymap(lambda x: 0 if x < 0 else x)\<close>\<close>

definition zera_negativos :: "'i frame \<Rightarrow> 'i frame" where
  "zera_negativos df = df\<lparr>cells := map (map (map_option (\<lambda>x. if x < 0 then 0 else x))) (cells df)\<rparr>"

text \<open>\<open>df *= m\<close>\<close>

definition scale :: "real \<Rightarrow> 'i frame \<Rightarrow> 'i frame" where
  "scale m df = df\<lparr>cells := map (map (map_option (\<lambda>x. x * m))) (cells df)\<rparr>"

text \<open>
  \<open>pd.concat(dfs, axis=0)\<close>: no table at all raises ValueError. Tables with the same
  column labels are appended row after row. Otherwise the columns are the union of the
  labels in order of first appearance and a cell of a column that a table lacks is NaN;
  duplicated labels then raise.
\<close>

fun union_labels :: "string list \<Rightarrow> string list \<Rightarrow> string list" where
  "union_labels acc [] = acc"
| "union_labels acc (c # cs) = union_labels (if c \<in> set acc then acc else acc @ [c]) cs"

definition reindex_row :: "string list \<Rightarrow> string list \<Rightarrow> real option list \<Rightarrow> real option list" where
  "reindex_row old new row =
     map (\<lambda>c. case map_of (zip old row) c of None \<Rightarrow> None | Some v \<Rightarrow> v) new"

definition pd_concat :: "'i frame list \<Rightarrow> py_error + 'i frame" where
  "pd_concat dfs =
     (case dfs of
        [] \<Rightarrow> Inl ValueError
      | d # ds \<Rightarrow>
          if list_all (\<lambda>df. columns df = columns d) ds
          then Inr \<lparr>columns = columns d, index = concat (map index dfs),
                    cells = concat (map cells dfs)\<rparr>
          else if \<not> list_all (\<lambda>df. distinct (columns df)) dfs then Inl InvalidIndexError
          else let cols = union_labels [] (concat (map columns dfs))
               in Inr \<lparr>columns = cols, index = concat (map index dfs),
                       cells = concat (map (\<lambda>df. map (reindex_row (columns df) cols) (cells df)) dfs)\<rparr>)"

subsection \<open>The four functions of the module\<close>

definition listar_arquivos :: "path \<Rightarrow> string \<Rightarrow> path list io" where
  "listar_arquivos diretorio base_de_dados =
     io_bind (listdir diretorio) (\<lambda>nomes.
       (let arquivos = map (\<lambda>arquivo. path_join diretorio arquivo) nomes
        in io_return (filter (\<lambda>x. py_in base_de_dados x) arquivos)))"

definition formatar :: "pandas \<Rightarrow> string frame \<Rightarrow> py_error + timestamp frame" where
  "formatar pd df0 =
     (let df = zera_negativos (div_1000 (rename_kW df0))
      in case those (map (to_datetime pd) (index df)) of
           None \<Rightarrow> Inl ValueError
         | Some ts \<Rightarrow> Inr \<lparr>columns = columns df, index = ts, cells = cells df\<rparr>)"

definition ler_e_formatar_dados :: "pandas \<Rightarrow> path \<Rightarrow> timestamp frame io" where
  "ler_e_formatar_dados pd arquivo =
     io_bind (read_text arquivo) (\<lambda>txt.
       case read_csv_raw pd txt of
         Inl e \<Rightarrow> io_raise e
       | Inr df0 \<Rightarrow> (case formatar pd df0 of Inl e \<Rightarrow> io_raise e | Inr df \<Rightarrow> io_return df))"

definition processar_arquivo :: "path \<Rightarrow> bool io" where
  "processar_arquivo arquivo =
     io_bind (path_exists arquivo) (\<lambda>existe.
       if existe then
         io_bind py_input (\<lambda>check_usuario.
           if upper check_usuario = ''S'' then io_return True
           else if upper check_usuario = ''N'' then io_return False
           else io_raise TypeError)
       else io_return True)"

text \<open>The loop of \<open>compilar_dados\<close> over the selected files; the first exception ends it.\<close>

fun ler_todos :: "pandas \<Rightarrow> path list \<Rightarrow> timestamp frame list \<Rightarrow> timestamp frame list io" where
  "ler_todos pd [] dados_por_ano = io_return dados_por_ano"
| "ler_todos pd (arquivo # arquivos) dados_por_ano =
     io_bind (ler_e_formatar_dados pd arquivo) (\<lambda>df.
       ler_todos pd arquivos (dados_por_ano @ [df]))"

definition fator_perdas :: "real \<Rightarrow> real \<Rightarrow> real" where
  "fator_perdas perdas_transformador perdas_linha =
     (1 - perdas_transformador) * (1 - perdas_linha)"

definition output_dir :: "path \<Rightarrow> path" where
  "output_dir d = path_join (path_join d ''data'') ''output''"

definition output_arquivo :: "path \<Rightarrow> string \<Rightarrow> path" where
  "output_arquivo d base_de_dados =
     path_join (output_dir d) (''dados_compilados_'' @ base_de_dados @ ''.csv'')"

text \<open>The branch of \<open>compilar_dados\<close> taken when \<open>processar_arquivo\<close> answers true.\<close>

definition recompilar ::
  "pandas \<Rightarrow> path \<Rightarrow> string \<Rightarrow> real \<Rightarrow> real \<Rightarrow> bool \<Rightarrow> path \<Rightarrow> timestamp frame io" where
  "recompilar pd diretorio base_de_dados perdas_trafo perdas_linha salvar_dados d =
     io_bind (listar_arquivos diretorio base_de_dados) (\<lambda>arquivos.
     io_bind (ler_todos pd arquivos []) (\<lambda>dados_por_ano.
       case pd_concat dados_por_ano of
         Inl e \<Rightarrow> io_raise e
       | Inr df_concat0 \<Rightarrow>
           (let df_concat = scale (fator_perdas perdas_trafo perdas_linha) df_concat0
            in if salvar_dados then
                 io_bind (makedirs (output_dir d)) (\<lambda>_.
                 io_bind (write_text (output_arquivo d base_de_dados) (to_csv pd df_concat)) (\<lambda>_.
                   io_return df_concat))
               else io_return df_concat)))"

text \<open>The branch taken when it answers false.\<close>

definition ler_compilado :: "pandas \<Rightarrow> path \<Rightarrow> timestamp frame io" where
  "ler_compilado pd arquivo =
     io_bind (read_text arquivo) (\<lambda>txt.
       case read_csv_cached pd txt of Inl e \<Rightarrow> io_raise e | Inr df \<Rightarrow> io_return df)"

definition compilar_dados ::
  "pandas \<Rightarrow> path \<Rightarrow> string \<Rightarrow> real \<Rightarrow> real \<Rightarrow> bool \<Rightarrow> timestamp frame io" where
  "compilar_dados pd diretorio base_de_dados perdas_trafo perdas_linha salvar_dados =
     io_bind getcwd (\<lambda>d.
     io_bind (processar_arquivo (output_arquivo d base_de_dados)) (\<lambda>processar.
       if processar
       then recompilar pd diretorio base_de_dados perdas_trafo perdas_linha salvar_dados d
       else ler_compilado pd (output_arquivo d base_de_dados)))"

subsection \<open>Predicates for stating the properties\<close>

text \<open>A path exists when it names a regular file or a directory.\<close>

definition existe :: "world \<Rightarrow> path \<Rightarrow> bool" where
  "existe w p = (files w p \<noteq> None \<or> dirs w p \<noteq> None)"

text \<open>The events that change the file system.\<close>

fun is_write :: "event \<Rightarrow> bool" where
  "is_write (MakeDirs p) = True"
| "is_write (WriteFile p) = True"
| "is_write e = False"

text \<open>
  \<open>so_leitura w w'\<close>: from \<open>w\<close> to \<open>w'\<close> the working directory, the directories and the
  files are the same, and the trace has grown by events that write nothing.
\<close>

definition so_leitura :: "world \<Rightarrow> world \<Rightarrow> bool" where
  "so_leitura w w' =
     (cwd w' = cwd w \<and> dirs w' = dirs w \<and> files w' = files w
      \<and> take (length (trace w)) (trace w') = trace w
      \<and> filter is_write (drop (length (trace w)) (trace w')) = [])"

text \<open>\<open>estende w w'\<close>: the working directory is the same and the trace has only grown.\<close>

definition estende :: "world \<Rightarrow> world \<Rightarrow> bool" where
  "estende w w' = (cwd w' = cwd w \<and> take (length (trace w)) (trace w') = trace w)"

text \<open>
  What reading and formatting the raw file \<open>a\<close> yields in the world \<open>w\<close>: the table, or the
  exception of the first step that fails (opening the file, \<open>read_csv\<close>, or the
  formatting).
\<close>

definition conteudo_formatado :: "pandas \<Rightarrow> world \<Rightarrow> path \<Rightarrow> py_error + timestamp frame" where
  "conteudo_formatado pd w a =
     (case files w a of
        None \<Rightarrow> Inl (if dirs w a \<noteq> None then IsADirectoryError else FileNotFoundError)
      | Some texto \<Rightarrow>
          (case read_csv_raw pd texto of
             Inl e \<Rightarrow> Inl e
           | Inr raw \<Rightarrow> formatar pd raw))"

text \<open>Lines 155 to 157 of \<open>compilar_dados\<close>: the output directory is ensured and the
  table is written.\<close>

definition salvar_compilado :: "pandas \<Rightarrow> path \<Rightarrow> string \<Rightarrow> timestamp frame \<Rightarrow> timestamp frame io" where
  "salvar_compilado pd d base df =
     io_bind (makedirs (output_dir d)) (\<lambda>_.
     io_bind (write_text (output_arquivo d base) (to_csv pd df)) (\<lambda>_.
       io_return df))"

subsection \<open>Example worlds\<close>

text \<open>
  A small pandas stand-in and file systems on which the statements below are
  evaluated: a raw directory with two files of one row each, the same world with a
  compiled file present, a directory whose own name contains the tag, and a raw
  directory with a single file.
\<close>

definition exemplo_negativo :: "string frame" where
  "exemplo_negativo =
     \<lparr>columns = [''kW''], index = [''01/01/20 00:00''], cells = [[Some (- 50)]]\<rparr>"

definition exemplo_positivo :: "string frame" where
  "exemplo_positivo =
     \<lparr>columns = [''kW''], index = [''01/01/20 12:00''], cells = [[Some 500000]]\<rparr>"

definition exemplo_compilado :: "timestamp frame" where
  "exemplo_compilado =
     \<lparr>columns = [''Energia''], index = [Timestamp 2020 1 1 12 0],
      cells = [[Some (493515 / 1000)]]\<rparr>"

definition exemplo_pd :: pandas where
  "exemplo_pd =
     \<lparr>read_csv_raw = (\<lambda>txt.
        if txt = ''01/01/20 00:00;-50'' then Inr exemplo_negativo
        else if txt = ''01/01/20 12:00;500000'' then Inr exemplo_positivo
        else Inl ParserError),
      to_datetime = (\<lambda>s.
        if s = ''01/01/20 00:00'' then Some (Timestamp 2020 1 1 0 0)
        else if s = ''01/01/20 12:00'' then Some (Timestamp 2020 1 1 12 0)
        else None),
      to_csv = (\<lambda>df. ''2020-01-01 12:00:00,493.515''),
      read_csv_cached = (\<lambda>txt.
        if txt = ''2020-01-01 12:00:00,493.515'' then Inr exemplo_compilado
        else Inl ParserError)\<rparr>"

definition exemplo_mundo :: world where
  "exemplo_mundo =
     \<lparr>cwd = ''/home/u'',
      dirs = [''/'' \<mapsto> [''home''], ''/home'' \<mapsto> [''u''], ''/home/u'' \<mapsto> [''raw''],
              ''/home/u/raw'' \<mapsto> [''Solcast_2020.csv'', ''Outra_2020.csv'']],
      files = [''/home/u/raw/Solcast_2020.csv'' \<mapsto> ''01/01/20 12:00;500000'',
               ''/home/u/raw/Outra_2020.csv'' \<mapsto> ''01/01/20 00:00;-50''],
      stdin = [''n''],
      trace = []\<rparr>"

definition exemplo_mundo_cache :: "string \<Rightarrow> world" where
  "exemplo_mundo_cache resposta =
     exemplo_mundo
       \<lparr>dirs := (dirs exemplo_mundo)
           (''/home/u'' \<mapsto> [''raw'', ''data''], ''/home/u/data'' \<mapsto> [''output''],
            ''/home/u/data/output'' \<mapsto> [''dados_compilados_Solcast.csv'']),
        files := (files exemplo_mundo)
           (''/home/u/data/output/dados_compilados_Solcast.csv'' \<mapsto> ''2020-01-01 12:00:00,493.515''),
        stdin := [resposta]\<rparr>"

definition exemplo_mundo_pasta :: world where
  "exemplo_mundo_pasta =
     \<lparr>cwd = ''/home/u'',
      dirs = [''/'' \<mapsto> [''dados'', ''home''], ''/home'' \<mapsto> [''u''], ''/home/u'' \<mapsto> [],
              ''/dados'' \<mapsto> [''Solcast'', ''raw''],
              ''/dados/Solcast'' \<mapsto> [''Solcast_2020.csv'', ''Solcast_2021.csv'', ''Outra_2020.csv''],
              ''/dados/raw'' \<mapsto> [''Solcast_2020.csv'', ''Solcast_2021.csv'', ''Outra_2020.csv'']],
      files = [''/dados/Solcast/Solcast_2020.csv'' \<mapsto> ''01/01/20 12:00;500000'',
               ''/dados/Solcast/Solcast_2021.csv'' \<mapsto> ''01/01/20 12:00;500000'',
               ''/dados/Solcast/Outra_2020.csv'' \<mapsto> ''01/01/20 00:00;-50'',
               ''/dados/raw/Solcast_2020.csv'' \<mapsto> ''01/01/20 12:00;500000'',
               ''/dados/raw/Solcast_2021.csv'' \<mapsto> ''01/01/20 12:00;500000'',
               ''/dados/raw/Outra_2020.csv'' \<mapsto> ''01/01/20 00:00;-50''],
      stdin = [],
      trace = []\<rparr>"

definition exemplo_mundo_unico :: "string \<Rightarrow> world" where
  "exemplo_mundo_unico conteudo =
     \<lparr>cwd = ''/home/u'',
      dirs = [''/'' \<mapsto> [''home''], ''/home'' \<mapsto> [''u''], ''/home/u'' \<mapsto> [''raw''],
              ''/home/u/raw'' \<mapsto> [''Solcast_2020.csv'']],
      files = [''/home/u/raw/Solcast_2020.csv'' \<mapsto> conteudo],
      stdin = [],
      trace = []\<rparr>"

text \<open>
  A stand-in for the text format of pandas at one value. The compiled value for a raw
  reading of 9 kW is the float product \<open>0.009 * 0.98703\<close>, which \<open>to_csv\<close> writes as
  \<open>0.008883269999999999\<close>; the reader of \<open>read_csv\<close> keeps the first 17 digits of that text,
  the leading zeros included, and returns \<open>0.0088832699999999\<close>.
\<close>

definition exemplo_nove :: "string frame" where
  "exemplo_nove = \<lparr>columns = [''kW''], index = [''01/01/20 12:00''], cells = [[Some 9]]\<rparr>"

definition exemplo_lido_truncado :: "timestamp frame" where
  "exemplo_lido_truncado =
     \<lparr>columns = [''Energia''], index = [Timestamp 2020 1 1 12 0],
      cells = [[Some (88832699999999 / 10000000000000000)]]\<rparr>"

definition exemplo_pd_truncado :: pandas where
  "exemplo_pd_truncado =
     \<lparr>read_csv_raw = (\<lambda>txt.
        if txt = ''01/01/20 12:00;9'' then Inr exemplo_nove else Inl ParserError),
      to_datetime = (\<lambda>s.
        if s = ''01/01/20 12:00'' then Some (Timestamp 2020 1 1 12 0) else None),
      to_csv = (\<lambda>df. ''2020-01-01 12:00:00,0.008883269999999999''),
      read_csv_cached = (\<lambda>txt.
        if txt = ''2020-01-01 12:00:00,0.008883269999999999'' then Inr exemplo_lido_truncado
        else Inl ParserError)\<rparr>"

definition exemplo_mundo_nove :: world where
  "exemplo_mundo_nove = (exemplo_mundo_unico ''01/01/20 12:00;9'')\<lparr>stdin := [''n'']\<rparr>"

text \<open>The world with a compiled file, the response \<open>s\<close>, and a raw file that cannot be
  parsed.\<close>

definition exemplo_mundo_ilegivel :: world where
  "exemplo_mundo_ilegivel =
     (exemplo_mundo_cache ''s'')
       \<lparr>files := (files (exemplo_mundo_cache ''s''))
           (''/home/u/raw/Solcast_2020.csv'' \<mapsto> ''sem dados'')\<rparr>"

section \<open>Auxiliary facts\<close>

lemma so_leitura_iff:
  "so_leitura w w' \<longleftrightarrow>
     cwd w' = cwd w \<and> dirs w' = dirs w \<and> files w' = files w
     \<and> (\<exists>es. trace w' = trace w @ es \<and> filter is_write es = [])"
proof -
  have "(take (length (trace w)) (trace w') = trace w
          \<and> filter is_write (drop (length (trace w)) (trace w')) = [])
        \<longleftrightarrow> (\<exists>es. trace w' = trace w @ es \<and> filter is_write es = [])"
  proof
    assume a: "take (length (trace w)) (trace w') = trace w
          \<and> filter is_write (drop (length (trace w)) (trace w')) = []"
    have "trace w' = take (length (trace w)) (trace w') @ drop (length (trace w)) (trace w')"
      by simp
    with a show "\<exists>es. trace w' = trace w @ es \<and> filter is_write es = []"
      by metis
  next
    assume "\<exists>es. trace w' = trace w @ es \<and> filter is_write es = []"
    then show "take (length (trace w)) (trace w') = trace w
          \<and> filter is_write (drop (length (trace w)) (trace w')) = []"
      by auto
  qed
  then show ?thesis unfolding so_leitura_def by blast
qed

lemma so_leitura_refl: "so_leitura w w"
  by (simp add: so_leitura_def)

lemma so_leitura_trans: "so_leitura w w1 \<Longrightarrow> so_leitura w1 w2 \<Longrightarrow> so_leitura w w2"
  unfolding so_leitura_iff by auto

lemma so_leitura_log: "\<not> is_write e \<Longrightarrow> so_leitura w (log_event e w)"
  by (simp add: so_leitura_def log_event_def)

lemma so_leitura_bind:
  assumes "\<And>w. so_leitura w (snd (m w))" and "\<And>x w. so_leitura w (snd (f x w))"
  shows "so_leitura w (snd (io_bind m f w))"
proof (cases "m w")
  case (Pair r w1)
  then have s1: "so_leitura w w1" using assms(1) [of w] by simp
  show ?thesis
  proof (cases r)
    case (Inl e)
    with Pair s1 show ?thesis by (simp add: io_bind_def)
  next
    case (Inr x)
    with Pair have "io_bind m f w = f x w1" by (simp add: io_bind_def)
    with s1 assms(2) [of w1 x] show ?thesis by (auto intro: so_leitura_trans)
  qed
qed

lemma so_leitura_return: "so_leitura w (snd (io_return x w))"
  by (simp add: io_return_def so_leitura_refl)

lemma so_leitura_raise: "so_leitura w (snd (io_raise e w))"
  by (simp add: io_raise_def so_leitura_refl)

lemma so_leitura_getcwd: "so_leitura w (snd (getcwd w))"
  by (simp add: getcwd_def so_leitura_refl)

lemma so_leitura_path_exists: "so_leitura w (snd (path_exists p w))"
  by (simp add: path_exists_def so_leitura_log)

lemma so_leitura_py_input: "so_leitura w (snd (py_input w))"
  by (simp add: py_input_def so_leitura_def log_event_def split: list.splits)

lemma so_leitura_listdir: "so_leitura w (snd (listdir p w))"
  by (simp add: listdir_def so_leitura_log split: option.splits)

lemma so_leitura_read_text: "so_leitura w (snd (read_text p w))"
  by (simp add: read_text_def so_leitura_log split: option.splits)

lemma so_leitura_processar_arquivo: "so_leitura w (snd (processar_arquivo p w))"
  unfolding processar_arquivo_def
  by (intro so_leitura_bind so_leitura_path_exists)
     (auto intro!: so_leitura_bind so_leitura_py_input so_leitura_return so_leitura_raise)

lemma so_leitura_listar_arquivos: "so_leitura w (snd (listar_arquivos d t w))"
  unfolding listar_arquivos_def
  by (intro so_leitura_bind so_leitura_listdir) (simp add: so_leitura_return)

lemma so_leitura_ler_e_formatar_dados: "so_leitura w (snd (ler_e_formatar_dados pd a w))"
  unfolding ler_e_formatar_dados_def
  by (intro so_leitura_bind so_leitura_read_text)
     (auto simp: so_leitura_return so_leitura_raise split: sum.splits)

lemma so_leitura_ler_todos: "so_leitura w (snd (ler_todos pd as acc w))"
proof (induction as arbitrary: acc w)
  case Nil
  show ?case by (simp add: so_leitura_return)
next
  case (Cons a as)
  show ?case
    by (simp only: ler_todos.simps) (intro so_leitura_bind so_leitura_ler_e_formatar_dados Cons.IH)
qed

lemma so_leitura_ler_compilado: "so_leitura w (snd (ler_compilado pd a w))"
  unfolding ler_compilado_def
  by (intro so_leitura_bind so_leitura_read_text)
     (auto simp: so_leitura_return so_leitura_raise split: sum.splits)

lemma so_leitura_recompilar:
  "so_leitura w (snd (recompilar pd diretorio base pt pl False d w))"
  unfolding recompilar_def
  by (intro so_leitura_bind so_leitura_listar_arquivos so_leitura_ler_todos)
     (auto simp: so_leitura_return so_leitura_raise Let_def split: sum.splits)

lemma upper_char_S: "upper_char c = CHR ''S'' \<longleftrightarrow> c = CHR ''S'' \<or> c = CHR ''s''"
  by (simp add: upper_char_def)

lemma upper_char_N: "upper_char c = CHR ''N'' \<longleftrightarrow> c = CHR ''N'' \<or> c = CHR ''n''"
  by (simp add: upper_char_def)

lemma upper_S: "upper r = ''S'' \<longleftrightarrow> r = ''S'' \<or> r = ''s''"
  by (cases r) (auto simp: upper_def upper_char_S)

lemma upper_N: "upper r = ''N'' \<longleftrightarrow> r = ''N'' \<or> r = ''n''"
  by (cases r) (auto simp: upper_def upper_char_N)

lemma processar_arquivo_ausente:
  "\<not> existe w p \<Longrightarrow> processar_arquivo p w = (Inr True, log_event (Exists p) w)"
  by (simp add: processar_arquivo_def io_bind_def path_exists_def io_return_def existe_def)

lemma processar_arquivo_presente:
  "existe w p \<Longrightarrow> stdin w = r # rs \<Longrightarrow>
   processar_arquivo p w =
     (if upper r = ''S'' then Inr True else if upper r = ''N'' then Inr False else Inl TypeError,
      log_event Input (log_event (Exists p) w\<lparr>stdin := rs\<rparr>))"
  by (simp add: processar_arquivo_def io_bind_def path_exists_def io_return_def io_raise_def
      existe_def py_input_def log_event_def)

lemma compilar_dados_unfold:
  "compilar_dados pd diretorio base pt pl s w =
     (case processar_arquivo (output_arquivo (cwd w) base) w of
        (Inl e, w') \<Rightarrow> (Inl e, w')
      | (Inr processar, w') \<Rightarrow>
          if processar then recompilar pd diretorio base pt pl s (cwd w) w'
          else ler_compilado pd (output_arquivo (cwd w) base) w')"
  by (auto simp: compilar_dados_def io_bind_def getcwd_def split: prod.splits sum.splits)

lemma compilar_dados_ausente:
  "\<not> existe w (output_arquivo (cwd w) base) \<Longrightarrow>
   compilar_dados pd diretorio base pt pl s w =
     recompilar pd diretorio base pt pl s (cwd w)
       (log_event (Exists (output_arquivo (cwd w) base)) w)"
  by (simp add: compilar_dados_unfold processar_arquivo_ausente)

lemma compilar_dados_reprocessa:
  "existe w (output_arquivo (cwd w) base) \<Longrightarrow> stdin w = r # rs \<Longrightarrow> upper r = ''S'' \<Longrightarrow>
   compilar_dados pd diretorio base pt pl s w =
     recompilar pd diretorio base pt pl s (cwd w)
       (log_event Input (log_event (Exists (output_arquivo (cwd w) base)) w\<lparr>stdin := rs\<rparr>))"
  by (simp add: compilar_dados_unfold processar_arquivo_presente)

lemma compilar_dados_reusa:
  "existe w (output_arquivo (cwd w) base) \<Longrightarrow> stdin w = r # rs \<Longrightarrow> upper r = ''N'' \<Longrightarrow>
   compilar_dados pd diretorio base pt pl s w =
     ler_compilado pd (output_arquivo (cwd w) base)
       (log_event Input (log_event (Exists (output_arquivo (cwd w) base)) w\<lparr>stdin := rs\<rparr>))"
  by (simp add: compilar_dados_unfold processar_arquivo_presente)

lemma ler_compilado_unfold:
  "ler_compilado pd a w =
     (case files w a of
        None \<Rightarrow> Inl (if dirs w a \<noteq> None then IsADirectoryError else FileNotFoundError)
      | Some txt \<Rightarrow> read_csv_cached pd txt,
      log_event (ReadFile a) w)"
  by (simp add: ler_compilado_def io_bind_def read_text_def io_raise_def io_return_def
      split: option.splits sum.splits)


lemma estende_refl: "estende w w"
  by (simp add: estende_def)

lemma estende_trans: "estende w w1 \<Longrightarrow> estende w1 w2 \<Longrightarrow> estende w w2"
  unfolding estende_def
  by (metis append_eq_conv_conj append.assoc append_take_drop_id)

lemma estende_so_leitura: "so_leitura w w' \<Longrightarrow> estende w w'"
  by (simp add: so_leitura_def estende_def)

lemma estende_bind:
  assumes "\<And>w. estende w (snd (m w))" and "\<And>x w. estende w (snd (f x w))"
  shows "estende w (snd (io_bind m f w))"
proof (cases "m w")
  case (Pair r w1)
  then have s1: "estende w w1" using assms(1) [of w] by simp
  show ?thesis
  proof (cases r)
    case (Inl e)
    with Pair s1 show ?thesis by (simp add: io_bind_def)
  next
    case (Inr x)
    with Pair have "io_bind m f w = f x w1" by (simp add: io_bind_def)
    with s1 assms(2) [of w1 x] show ?thesis by (auto intro: estende_trans)
  qed
qed

lemma add_entry_same: "cwd (add_entry p w) = cwd w" "trace (add_entry p w) = trace w"
  "files (add_entry p w) = files w"
  by (simp_all add: add_entry_def split: option.splits)

lemma ensure_dirs_same:
  "cwd (snd (ensure_dirs qs w)) = cwd w \<and> trace (snd (ensure_dirs qs w)) = trace w
   \<and> files (snd (ensure_dirs qs w)) = files w"
  by (induction qs arbitrary: w) (simp_all add: add_entry_same)

lemma estende_makedirs: "estende w (snd (makedirs p w))"
  by (simp add: makedirs_def estende_def ensure_dirs_same log_event_def)

lemma estende_write_text: "estende w (snd (write_text p txt w))"
  by (simp add: write_text_def estende_def add_entry_same log_event_def)


lemma estende_ler_todos: "estende w (snd (ler_todos pd as acc w))"
  by (simp add: estende_so_leitura so_leitura_ler_todos)

lemma estende_resto:
  "estende w (snd (io_bind (ler_todos pd arquivos []) (\<lambda>dados_por_ano.
       case pd_concat dados_por_ano of
         Inl e \<Rightarrow> io_raise e
       | Inr df_concat0 \<Rightarrow>
           (let df_concat = scale (fator_perdas pt pl) df_concat0
            in if s then
                 io_bind (makedirs (output_dir d)) (\<lambda>_.
                 io_bind (write_text (output_arquivo d base) (to_csv pd df_concat)) (\<lambda>_.
                   io_return df_concat))
               else io_return df_concat)) w))"
  by (intro estende_bind estende_ler_todos)
     (auto simp: Let_def io_return_def io_raise_def estende_refl split: sum.splits
           intro!: estende_bind estende_makedirs estende_write_text)


lemma listar_arquivos_trace:
  "trace (snd (listar_arquivos diretorio base w)) = trace w @ [ListDir diretorio]"
  by (simp add: listar_arquivos_def io_bind_def listdir_def io_return_def log_event_def
      split: option.splits)

lemma recompilar_trace_listdir:
  "take (Suc (length (trace w))) (trace (snd (recompilar pd diretorio base pt pl s d w)))
     = trace w @ [ListDir diretorio]"
proof -
  obtain r w1 where l: "listar_arquivos diretorio base w = (r, w1)"
    by (cases "listar_arquivos diretorio base w")
  then have t1: "trace w1 = trace w @ [ListDir diretorio]"
    using listar_arquivos_trace [of diretorio base w] by simp
  have "take (length (trace w1)) (trace (snd (recompilar pd diretorio base pt pl s d w))) = trace w1"
  proof (cases r)
    case (Inl e)
    with l show ?thesis by (simp add: recompilar_def io_bind_def)
  next
    case (Inr arquivos)
    let ?rest = "\<lambda>arquivos. io_bind (ler_todos pd arquivos []) (\<lambda>dados_por_ano.
       case pd_concat dados_por_ano of
         Inl e \<Rightarrow> io_raise e
       | Inr df_concat0 \<Rightarrow>
           (let df_concat = scale (fator_perdas pt pl) df_concat0
            in if s then
                 io_bind (makedirs (output_dir d)) (\<lambda>_.
                 io_bind (write_text (output_arquivo d base) (to_csv pd df_concat)) (\<lambda>_.
                   io_return df_concat))
               else io_return df_concat))"
    have e: "estende w1 (snd (?rest arquivos w1))"
      by (rule estende_resto)
    have "recompilar pd diretorio base pt pl s d w = ?rest arquivos w1"
      using l Inr by (simp add: recompilar_def io_bind_def)
    with e show ?thesis by (simp add: estende_def)
  qed
  with t1 show ?thesis by simp
qed




lemmas exemplo_defs = exemplo_mundo_def exemplo_mundo_cache_def exemplo_pd_def
  exemplo_negativo_def exemplo_positivo_def exemplo_compilado_def exemplo_mundo_pasta_def exemplo_mundo_unico_def


lemma listar_arquivos_unfold:
  "dirs w diretorio = Some nomes \<Longrightarrow>
   listar_arquivos diretorio base w =
     (Inr (filter (py_in base) (map (path_join diretorio) nomes)), log_event (ListDir diretorio) w)"
  by (simp add: listar_arquivos_def io_bind_def listdir_def io_return_def)

lemma recompilar_vazio:
  assumes "dirs w diretorio = Some nomes"
    and "\<forall>n\<in>set nomes. \<not> py_in base (path_join diretorio n)"
  shows "recompilar pd diretorio base pt pl s d w = (Inl ValueError, log_event (ListDir diretorio) w)"
proof -
  from assms(2) have "filter (py_in base) (map (path_join diretorio) nomes) = []"
    by (induction nomes) simp_all
  with assms(1) show ?thesis
    by (simp add: recompilar_def listar_arquivos_unfold io_bind_def io_return_def io_raise_def
        pd_concat_def)
qed

lemma exemplo_ancestors:
  "ancestors ''/home/u/data/output'' = [''/home'', ''/home/u'', ''/home/u/data'', ''/home/u/data/output'']"
  by code_simp


lemma ler_e_formatar_dados_unfold:
  "ler_e_formatar_dados pd a w = (conteudo_formatado pd w a, log_event (ReadFile a) w)"
  by (auto simp: ler_e_formatar_dados_def conteudo_formatado_def io_bind_def read_text_def
      io_raise_def io_return_def split: option.splits sum.splits)

lemma conteudo_formatado_log:
  "conteudo_formatado pd (log_event e w) = conteudo_formatado pd w"
  by (rule ext) (auto simp: conteudo_formatado_def log_event_def split: option.splits)

lemma ler_todos_ok:
  "map (conteudo_formatado pd w) as = map Inr dfs \<Longrightarrow>
   ler_todos pd as acc w = (Inr (acc @ dfs), w\<lparr>trace := trace w @ map ReadFile as\<rparr>)"
proof (induction as arbitrary: acc w dfs)
  case Nil
  then show ?case by (simp add: io_return_def)
next
  case (Cons a as)
  from Cons.prems obtain d ds where d: "dfs = d # ds" "conteudo_formatado pd w a = Inr d"
    "map (conteudo_formatado pd w) as = map Inr ds"
    by (cases dfs) auto
  have "map (conteudo_formatado pd (log_event (ReadFile a) w)) as = map Inr ds"
    using d(3) by (simp add: conteudo_formatado_log)
  from Cons.IH [OF this, of "acc @ [d]"] d show ?case
    by (simp add: io_bind_def ler_e_formatar_dados_unfold log_event_def)
qed

lemma ler_todos_falha:
  "k < length as \<Longrightarrow> map (conteudo_formatado pd w) (take k as) = map Inr dfs \<Longrightarrow>
   conteudo_formatado pd w (as ! k) = Inl e \<Longrightarrow>
   ler_todos pd as acc w = (Inl e, w\<lparr>trace := trace w @ map ReadFile (take (Suc k) as)\<rparr>)"
proof (induction as arbitrary: acc w dfs k)
  case Nil
  then show ?case by simp
next
  case (Cons a as)
  show ?case
  proof (cases k)
    case 0
    with Cons.prems show ?thesis
      by (simp add: io_bind_def ler_e_formatar_dados_unfold log_event_def)
  next
    case (Suc j)
    with Cons.prems obtain d ds where d: "dfs = d # ds" "conteudo_formatado pd w a = Inr d"
      "map (conteudo_formatado pd w) (take j as) = map Inr ds"
      by (cases dfs) auto
    have 1: "j < length as" using Cons.prems(1) Suc by simp
    have 2: "map (conteudo_formatado pd (log_event (ReadFile a) w)) (take j as) = map Inr ds"
      using d(3) by (simp add: conteudo_formatado_log)
    have 3: "conteudo_formatado pd (log_event (ReadFile a) w) (as ! j) = Inl e"
      using Cons.prems(3) Suc by (simp add: conteudo_formatado_log)
    from Cons.IH [OF 1 2 3, of "acc @ [d]"] d Suc show ?thesis
      by (simp add: io_bind_def ler_e_formatar_dados_unfold log_event_def)
  qed
qed

lemma resultados_casos:
  fixes rs :: "('e + 'a) list"
  shows "(\<exists>dfs. rs = map Inr dfs)
       \<or> (\<exists>k e dfs. k < length rs \<and> take k rs = map Inr dfs \<and> rs ! k = Inl e)"
proof (induction rs)
  case Nil
  then show ?case by simp
next
  case (Cons x xs)
  show ?case
  proof (cases x)
    case (Inl e)
    then have "0 < length (x # xs) \<and> take 0 (x # xs) = map Inr [] \<and> (x # xs) ! 0 = Inl e"
      by simp
    then have "\<exists>k e dfs. k < length (x # xs) \<and> take k (x # xs) = map Inr dfs
        \<and> (x # xs) ! k = Inl e"
      by (intro exI)
    then show ?thesis by (rule disjI2)
  next
    case (Inr d)
    from Cons.IH show ?thesis
    proof
      assume "\<exists>dfs. xs = map Inr dfs"
      then obtain dfs where "xs = map Inr dfs" ..
      with Inr have "x # xs = map Inr (d # dfs)" by simp
      then have "\<exists>dfs. x # xs = map Inr dfs" by (rule exI)
      then show ?thesis by (rule disjI1)
    next
      assume "\<exists>k e dfs. k < length xs \<and> take k xs = map Inr dfs \<and> xs ! k = Inl e"
      then obtain k e dfs where "k < length xs" "take k xs = map Inr dfs" "xs ! k = Inl e"
        by blast
      with Inr have "Suc k < length (x # xs) \<and> take (Suc k) (x # xs) = map Inr (d # dfs)
          \<and> (x # xs) ! Suc k = Inl e"
        by simp
      then have "\<exists>k e dfs. k < length (x # xs) \<and> take k (x # xs) = map Inr dfs
          \<and> (x # xs) ! k = Inl e"
        by (intro exI)
      then show ?thesis by (rule disjI2)
    qed
  qed
qed

lemma recompilar_ok:
  assumes "dirs w diretorio = Some nomes"
    and "arquivos = filter (py_in base) (map (path_join diretorio) nomes)"
    and "map (conteudo_formatado pd w) arquivos = map Inr dfs"
  shows "recompilar pd diretorio base pt pl s d w =
     (case pd_concat dfs of
        Inl e \<Rightarrow> (Inl e, w\<lparr>trace := trace w @ ListDir diretorio # map ReadFile arquivos\<rparr>)
      | Inr df0 \<Rightarrow>
          if s then salvar_compilado pd d base (scale (fator_perdas pt pl) df0)
                      (w\<lparr>trace := trace w @ ListDir diretorio # map ReadFile arquivos\<rparr>)
          else (Inr (scale (fator_perdas pt pl) df0),
                w\<lparr>trace := trace w @ ListDir diretorio # map ReadFile arquivos\<rparr>))"
proof -
  let ?w1 = "log_event (ListDir diretorio) w"
  have "map (conteudo_formatado pd ?w1) arquivos = map Inr dfs"
    using assms(3) by (simp add: conteudo_formatado_log)
  from ler_todos_ok [OF this, of "[]"]
  have l: "ler_todos pd arquivos [] ?w1
      = (Inr dfs, w\<lparr>trace := trace w @ ListDir diretorio # map ReadFile arquivos\<rparr>)"
    by (simp add: log_event_def)
  show ?thesis
    unfolding recompilar_def salvar_compilado_def
    by (simp add: listar_arquivos_unfold [OF assms(1)] assms(2) [symmetric] io_bind_def l
        io_raise_def io_return_def Let_def split: sum.splits)
qed

lemma recompilar_falha:
  assumes "dirs w diretorio = Some nomes"
    and "arquivos = filter (py_in base) (map (path_join diretorio) nomes)"
    and "k < length arquivos"
    and "map (conteudo_formatado pd w) (take k arquivos) = map Inr dfs"
    and "conteudo_formatado pd w (arquivos ! k) = Inl e"
  shows "recompilar pd diretorio base pt pl s d w =
     (Inl e, w\<lparr>trace := trace w @ ListDir diretorio # map ReadFile (take (Suc k) arquivos)\<rparr>)"
proof -
  let ?w1 = "log_event (ListDir diretorio) w"
  have 2: "map (conteudo_formatado pd ?w1) (take k arquivos) = map Inr dfs"
    using assms(4) by (simp add: conteudo_formatado_log)
  have 3: "conteudo_formatado pd ?w1 (arquivos ! k) = Inl e"
    using assms(5) by (simp add: conteudo_formatado_log)
  from ler_todos_falha [OF assms(3) 2 3, of "[]"]
  have l: "ler_todos pd arquivos [] ?w1
      = (Inl e, w\<lparr>trace := trace w @ ListDir diretorio # map ReadFile (take (Suc k) arquivos)\<rparr>)"
    by (simp add: log_event_def)
  show ?thesis
    unfolding recompilar_def
    by (simp add: listar_arquivos_unfold [OF assms(1)] assms(2) [symmetric] io_bind_def l)
qed

lemma salvar_casos:
  "(\<exists>e. fst (salvar_compilado pd d base df w) = Inl e
        \<and> (trace (snd (salvar_compilado pd d base df w)) = trace w @ [MakeDirs (output_dir d)]
           \<or> trace (snd (salvar_compilado pd d base df w))
               = trace w @ [MakeDirs (output_dir d), WriteFile (output_arquivo d base)]))
   \<or> (fst (salvar_compilado pd d base df w) = Inr df
      \<and> trace (snd (salvar_compilado pd d base df w))
          = trace w @ [MakeDirs (output_dir d), WriteFile (output_arquivo d base)]
      \<and> files (snd (salvar_compilado pd d base df w)) (output_arquivo d base) = Some (to_csv pd df))"
proof -
  obtain r1 w1 where m: "makedirs (output_dir d) w = (r1, w1)"
    by (cases "makedirs (output_dir d) w")
  have t1: "trace w1 = trace w @ [MakeDirs (output_dir d)]"
    using m ensure_dirs_same [of "ancestors (output_dir d)" "log_event (MakeDirs (output_dir d)) w"]
    by (simp add: makedirs_def log_event_def)
  show ?thesis
  proof (cases r1)
    case (Inl e)
    with m t1 show ?thesis by (simp add: salvar_compilado_def io_bind_def)
  next
    case (Inr u)
    with m t1 show ?thesis
      by (simp add: salvar_compilado_def io_bind_def write_text_def io_return_def add_entry_same
          log_event_def)
  qed
qed

lemma ensure_dirs_existentes:
  "list_all (\<lambda>q. dirs w q \<noteq> None) qs \<Longrightarrow> ensure_dirs qs w = (Inr (), w)"
  by (induction qs) simp_all

lemma salvar_ok:
  assumes "list_all (\<lambda>q. dirs w q \<noteq> None) (ancestors (output_dir d))"
    and "dirs w (dirname (output_arquivo d base)) \<noteq> None"
    and "dirs w (output_arquivo d base) = None"
  shows "fst (salvar_compilado pd d base df w) = Inr df"
proof -
  have "list_all (\<lambda>q. dirs (log_event (MakeDirs (output_dir d)) w) q \<noteq> None) (ancestors (output_dir d))"
    using assms(1) by (simp add: log_event_def)
  from ensure_dirs_existentes [OF this] assms(2,3) show ?thesis
    by (simp add: salvar_compilado_def io_bind_def makedirs_def write_text_def io_return_def log_event_def)
qed

lemma conteudo_formatado_fs:
  "files w' = files w \<Longrightarrow> dirs w' = dirs w \<Longrightarrow>
   conteudo_formatado pd w' = conteudo_formatado pd w"
  by (rule ext) (auto simp: conteudo_formatado_def split: option.splits)

lemma recompilar_sucesso:
  assumes "dirs v diretorio = Some nomes"
    and "arquivos = filter (py_in base) (map (path_join diretorio) nomes)"
    and "map (conteudo_formatado pd v) arquivos = map Inr dfs"
  shows "\<exists>ws. trace (snd (recompilar pd diretorio base pt pl s d v))
          = trace v @ ListDir diretorio # map ReadFile arquivos @ ws
      \<and> (ws = [] \<or> ws = [MakeDirs (output_dir d)]
          \<or> ws = [MakeDirs (output_dir d), WriteFile (output_arquivo d base)])"
    and "pd_concat dfs = Inl e \<Longrightarrow>
         recompilar pd diretorio base pt pl s d v
           = (Inl e, v\<lparr>trace := trace v @ ListDir diretorio # map ReadFile arquivos\<rparr>)"
    and "pd_concat dfs = Inr df0 \<Longrightarrow> fst (recompilar pd diretorio base pt pl s d v) = Inr df \<Longrightarrow>
         df = scale (fator_perdas pt pl) df0"
    and "pd_concat dfs = Inr df0 \<Longrightarrow> \<not> s \<Longrightarrow>
         recompilar pd diretorio base pt pl s d v
           = (Inr (scale (fator_perdas pt pl) df0),
              v\<lparr>trace := trace v @ ListDir diretorio # map ReadFile arquivos\<rparr>)"
    and "pd_concat dfs = Inr df0 \<Longrightarrow> s \<Longrightarrow>
         list_all (\<lambda>q. dirs v q \<noteq> None) (ancestors (output_dir d)) \<Longrightarrow>
         dirs v (dirname (output_arquivo d base)) \<noteq> None \<Longrightarrow>
         dirs v (output_arquivo d base) = None \<Longrightarrow>
         fst (recompilar pd diretorio base pt pl s d v) = Inr (scale (fator_perdas pt pl) df0)
       \<and> files (snd (recompilar pd diretorio base pt pl s d v)) (output_arquivo d base)
           = Some (to_csv pd (scale (fator_perdas pt pl) df0))
       \<and> trace (snd (recompilar pd diretorio base pt pl s d v))
           = trace v @ ListDir diretorio # map ReadFile arquivos
               @ [MakeDirs (output_dir d), WriteFile (output_arquivo d base)]"
proof -
  let ?R = "recompilar pd diretorio base pt pl s d v"
  let ?v2 = "v\<lparr>trace := trace v @ ListDir diretorio # map ReadFile arquivos\<rparr>"
  let ?m = "fator_perdas pt pl"
  note r = recompilar_ok [OF assms, of pt pl s d]
  have sv: "?R = salvar_compilado pd d base (scale ?m x) ?v2" if "pd_concat dfs = Inr x" "s" for x
    using r that by simp
  show "\<exists>ws. trace (snd ?R) = trace v @ ListDir diretorio # map ReadFile arquivos @ ws
      \<and> (ws = [] \<or> ws = [MakeDirs (output_dir d)]
          \<or> ws = [MakeDirs (output_dir d), WriteFile (output_arquivo d base)])"
  proof (cases "pd_concat dfs")
    case (Inl e')
    with r show ?thesis by simp
  next
    case (Inr x)
    show ?thesis
    proof (cases s)
      case False
      with r Inr show ?thesis by simp
    next
      case True
      from salvar_casos [of pd d base "scale ?m x" ?v2] show ?thesis
        unfolding sv [OF Inr True] by auto
    qed
  qed
  show "pd_concat dfs = Inl e \<Longrightarrow> ?R = (Inl e, ?v2)"
    using r by simp
  show "pd_concat dfs = Inr df0 \<Longrightarrow> \<not> s \<Longrightarrow> ?R = (Inr (scale ?m df0), ?v2)"
    using r by simp
  show "df = scale ?m df0" if c: "pd_concat dfs = Inr df0" and f: "fst ?R = Inr df"
  proof (cases s)
    case False
    with r c f show ?thesis by simp
  next
    case True
    from salvar_casos [of pd d base "scale ?m df0" ?v2] f show ?thesis
      unfolding sv [OF c True] by auto
  qed
  show "fst ?R = Inr (scale ?m df0)
       \<and> files (snd ?R) (output_arquivo d base) = Some (to_csv pd (scale ?m df0))
       \<and> trace (snd ?R) = trace v @ ListDir diretorio # map ReadFile arquivos
               @ [MakeDirs (output_dir d), WriteFile (output_arquivo d base)]"
    if c: "pd_concat dfs = Inr df0" and s: "s"
      and h: "list_all (\<lambda>q. dirs v q \<noteq> None) (ancestors (output_dir d))"
        "dirs v (dirname (output_arquivo d base)) \<noteq> None" "dirs v (output_arquivo d base) = None"
  proof -
    have "fst (salvar_compilado pd d base (scale ?m df0) ?v2) = Inr (scale ?m df0)"
      using h by (intro salvar_ok) simp_all
    with salvar_casos [of pd d base "scale ?m df0" ?v2] show ?thesis
      unfolding sv [OF c s] by auto
  qed
qed

lemma recompilar_trace_forma:
  assumes "dirs v diretorio = Some nomes"
    and "arquivos = filter (py_in base) (map (path_join diretorio) nomes)"
  shows "\<exists>n ws. n \<le> length arquivos
      \<and> trace (snd (recompilar pd diretorio base pt pl s d v))
          = trace v @ ListDir diretorio # map ReadFile (take n arquivos) @ ws
      \<and> (ws = [] \<or> ws = [MakeDirs (output_dir d)]
          \<or> ws = [MakeDirs (output_dir d), WriteFile (output_arquivo d base)])"
proof -
  let ?R = "recompilar pd diretorio base pt pl s d v"
  from resultados_casos [of "map (conteudo_formatado pd v) arquivos"]
  show ?thesis
  proof
    assume "\<exists>dfs. map (conteudo_formatado pd v) arquivos = map Inr dfs"
    then obtain dfs where ok: "map (conteudo_formatado pd v) arquivos = map Inr dfs" ..
    from recompilar_sucesso(1) [OF assms ok, where pt = pt and pl = pl and s = s and d = d]
    obtain ws where "length arquivos \<le> length arquivos \<and> trace (snd ?R)
          = trace v @ ListDir diretorio # map ReadFile (take (length arquivos) arquivos) @ ws
      \<and> (ws = [] \<or> ws = [MakeDirs (output_dir d)]
          \<or> ws = [MakeDirs (output_dir d), WriteFile (output_arquivo d base)])"
      by auto
    then show ?thesis by blast
  next
    assume "\<exists>k e dfs. k < length (map (conteudo_formatado pd v) arquivos)
        \<and> take k (map (conteudo_formatado pd v) arquivos) = map Inr dfs
        \<and> map (conteudo_formatado pd v) arquivos ! k = Inl e"
    then obtain k e dfs where k: "k < length arquivos"
      and t: "map (conteudo_formatado pd v) (take k arquivos) = map Inr dfs"
      and f: "conteudo_formatado pd v (arquivos ! k) = Inl e"
      by (auto simp: take_map)
    from recompilar_falha [OF assms k t f, of pt pl s d] k
    have "Suc k \<le> length arquivos
      \<and> trace (snd ?R) = trace v @ ListDir diretorio # map ReadFile (take (Suc k) arquivos) @ []
      \<and> ([] = [] \<or> [] = [MakeDirs (output_dir d)]
          \<or> [] = [MakeDirs (output_dir d), WriteFile (output_arquivo d base)])"
      by simp
    then show ?thesis by blast
  qed
qed

lemmas exemplo_defs2 = exemplo_defs exemplo_nove_def exemplo_lido_truncado_def
  exemplo_pd_truncado_def exemplo_mundo_nove_def exemplo_mundo_ilegivel_def


section \<open>The properties\<close>



text \<open>
  Claim C2 as stated fails: in the example world no entry of \<open>/home/u/raw\<close> matches the tag
  \<open>PVGIS\<close> and the call raises \<open>ValueError\<close> instead of returning an empty table.
\<close>

theorem compilar_vazio_counterexample:
  "fst (compilar_dados exemplo_pd ''/home/u/raw'' ''PVGIS'' 0.003 0.01 False exemplo_mundo)
     = Inl ValueError"
proof -
  have "\<not> existe exemplo_mundo (output_arquivo (cwd exemplo_mundo) ''PVGIS'')"
    by (simp add: exemplo_defs existe_def output_arquivo_def output_dir_def path_join_def)
  moreover have "dirs (log_event (Exists (output_arquivo (cwd exemplo_mundo) ''PVGIS'')) exemplo_mundo)
      ''/home/u/raw'' = Some [''Solcast_2020.csv'', ''Outra_2020.csv'']"
    by (simp add: exemplo_defs log_event_def)
  moreover have "\<forall>n\<in>set [''Solcast_2020.csv'', ''Outra_2020.csv''].
      \<not> py_in ''PVGIS'' (path_join ''/home/u/raw'' n)"
    by (simp add: path_join_def)
  ultimately show ?thesis
    by (simp add: compilar_dados_ausente recompilar_vazio)
qed

text \<open>
  Claim C2, amended. When \<open>compilar_dados\<close> recomputes (the output path does not exist,
  or the response is reprocess) and no joined path of the directory contains the tag,
  the concatenation of zero tables raises \<open>ValueError\<close>: no table is returned, and the
  working directory, the directories and the files are left as they were.
\<close>

theorem compilar_vazio_levanta:
  assumes "dirs w diretorio = Some nomes"
    and "\<forall>n\<in>set nomes. \<not> py_in base (path_join diretorio n)"
    and "\<not> existe w (output_arquivo (cwd w) base) \<or> (\<exists>r rs. stdin w = r # rs \<and> upper r = ''S'')"
  shows "fst (compilar_dados pd diretorio base pt pl salvar w) = Inl ValueError
       \<and> cwd (snd (compilar_dados pd diretorio base pt pl salvar w)) = cwd w
       \<and> dirs (snd (compilar_dados pd diretorio base pt pl salvar w)) = dirs w
       \<and> files (snd (compilar_dados pd diretorio base pt pl salvar w)) = files w"
proof (cases "existe w (output_arquivo (cwd w) base)")
  case False
  have "dirs (log_event (Exists (output_arquivo (cwd w) base)) w) diretorio = Some nomes"
    using assms(1) by (simp add: log_event_def)
  from recompilar_vazio [OF this assms(2)] False show ?thesis
    by (simp add: compilar_dados_ausente log_event_def)
next
  case True
  with assms(3) obtain r rs where s: "stdin w = r # rs" "upper r = ''S''" by auto
  have "dirs (log_event Input (log_event (Exists (output_arquivo (cwd w) base)) w\<lparr>stdin := rs\<rparr>))
          diretorio = Some nomes"
    using assms(1) by (simp add: log_event_def)
  from recompilar_vazio [OF this assms(2)] True s show ?thesis
    by (simp add: compilar_dados_reprocessa log_event_def)
qed

text \<open>
  The amended C2 on the example world with the tag \<open>ERA5\<close>.
\<close>

theorem compilar_vazio_levanta_witness:
  "dirs exemplo_mundo ''/home/u/raw'' = Some [''Solcast_2020.csv'', ''Outra_2020.csv'']
   \<and> \<not> py_in ''ERA5'' (path_join ''/home/u/raw'' ''Solcast_2020.csv'')
   \<and> \<not> py_in ''ERA5'' (path_join ''/home/u/raw'' ''Outra_2020.csv'')
   \<and> \<not> existe exemplo_mundo (output_arquivo (cwd exemplo_mundo) ''ERA5'')
   \<and> fst (compilar_dados exemplo_pd ''/home/u/raw'' ''ERA5'' 0.003 0.01 True exemplo_mundo)
       = Inl ValueError
   \<and> files (snd (compilar_dados exemplo_pd ''/home/u/raw'' ''ERA5'' 0.003 0.01 True exemplo_mundo))
       = files exemplo_mundo"
proof -
  have h1: "dirs exemplo_mundo ''/home/u/raw'' = Some [''Solcast_2020.csv'', ''Outra_2020.csv'']"
    by (simp add: exemplo_defs)
  have h2: "\<forall>n\<in>set [''Solcast_2020.csv'', ''Outra_2020.csv''].
         \<not> py_in ''ERA5'' (path_join ''/home/u/raw'' n)"
    by (simp add: path_join_def)
  have h3: "\<not> existe exemplo_mundo (output_arquivo (cwd exemplo_mundo) ''ERA5'')"
    by (simp add: exemplo_defs existe_def output_arquivo_def output_dir_def path_join_def)
  from h3 have h3': "\<not> existe exemplo_mundo (output_arquivo (cwd exemplo_mundo) ''ERA5'')
      \<or> (\<exists>r rs. stdin exemplo_mundo = r # rs \<and> upper r = ''S'')" by simp
  from compilar_vazio_levanta [OF h1 h2 h3', of exemplo_pd "0.003" "0.01" True] h1 h2 h3
  show ?thesis by simp
qed

text \<open>
  Claim C3. The claim says that \<open>listar_arquivos\<close> selects the entries whose name
  contains the tag, whatever the directory path contains. The function tests the
  joined path instead: in the directory \<open>/dados/Solcast\<close> the tag \<open>Solcast\<close> selects all
  three entries, \<open>Outra_2020.csv\<close> included, while in \<open>/dados/raw\<close> it selects the first
  two only.
\<close>

theorem listar_arquivos_filtra_caminho:
  "fst (listar_arquivos ''/dados/Solcast'' ''Solcast'' exemplo_mundo_pasta)
     = Inr [''/dados/Solcast/Solcast_2020.csv'', ''/dados/Solcast/Solcast_2021.csv'',
            ''/dados/Solcast/Outra_2020.csv'']
   \<and> fst (listar_arquivos ''/dados/raw'' ''Solcast'' exemplo_mundo_pasta)
     = Inr [''/dados/raw/Solcast_2020.csv'', ''/dados/raw/Solcast_2021.csv'']"
  by (simp add: exemplo_defs listar_arquivos_def io_bind_def listdir_def io_return_def path_join_def)

text \<open>
  Claim C4. For loss rates \<open>a\<close> and \<open>b\<close> in \<open>[0, 1)\<close> the combined multiplier
  \<open>(1 - a) * (1 - b)\<close> is the same in either order of the rates, lies in \<open>(0, 1]\<close>, and
  \<open>compilar_dados\<close> behaves the same when the two rates are exchanged.
\<close>

theorem fator_perdas_comutativo:
  assumes "0 \<le> a" and "a < 1" and "0 \<le> b" and "b < 1"
  shows "fator_perdas a b = fator_perdas b a
       \<and> 0 < fator_perdas a b \<and> fator_perdas a b \<le> 1
       \<and> compilar_dados pd diretorio base a b salvar w = compilar_dados pd diretorio base b a salvar w"
proof -
  have c: "fator_perdas a b = fator_perdas b a"
    by (simp add: fator_perdas_def mult.commute)
  have p: "0 < fator_perdas a b"
    using assms by (simp add: fator_perdas_def)
  have "(1 - a) * (1 - b) \<le> 1 * 1"
    using assms by (intro mult_mono) simp_all
  then have u: "fator_perdas a b \<le> 1"
    by (simp add: fator_perdas_def)
  have r: "recompilar pd diretorio base a b salvar = recompilar pd diretorio base b a salvar"
    unfolding recompilar_def c by (rule refl)
  have "compilar_dados pd diretorio base a b salvar w = compilar_dados pd diretorio base b a salvar w"
    unfolding compilar_dados_def r by (rule refl)
  with c p u show ?thesis by simp
qed

text \<open>
  C4 at the default rates 0.003 and 0.01.
\<close>

theorem fator_perdas_comutativo_witness:
  "(0::real) \<le> 0.003 \<and> (0.003::real) < 1 \<and> (0::real) \<le> 0.01 \<and> (0.01::real) < 1
   \<and> fator_perdas 0.003 0.01 = fator_perdas 0.01 0.003
   \<and> 0 < fator_perdas 0.003 0.01 \<and> fator_perdas 0.003 0.01 \<le> 1
   \<and> compilar_dados exemplo_pd ''/home/u/raw'' ''Solcast'' 0.003 0.01 False exemplo_mundo
     = compilar_dados exemplo_pd ''/home/u/raw'' ''Solcast'' 0.01 0.003 False exemplo_mundo"
  using fator_perdas_comutativo [of "0.003" "0.01" exemplo_pd "''/home/u/raw''" "''Solcast''" False exemplo_mundo]
  by simp

text \<open>
  Claim C5. With the output path present and one response on the console.

  On reprocess \<open>compilar_dados\<close> runs the recomputing branch. After the cache gate it
  lists the raw directory and opens the selected raw files in order, and it opens no
  other file: the trace is the listing, a prefix of the selected files, and at most the
  two writing events, so the output file is read only if it is itself one of the
  selected raw files. When every selected file reads and formats, all of them are
  opened and the result is the concatenation of their tables scaled by the loss
  factor (written to the output path when \<open>salvar_dados\<close> holds and the output directory
  is there); when one fails, the call raises its exception right after opening it.

  On reuse it accesses nothing but the output file (the trace grows by the existence
  test, the console read and one read of the output file), writes nothing, and returns
  what \<open>read_csv_cached\<close> gives for the text of that file, with no loss factor applied.
\<close>

theorem compilar_decisao:
  assumes "existe w (output_arquivo (cwd w) base)" and "stdin w = r # rs"
  shows "(upper r = ''S'' \<longrightarrow>
            compilar_dados pd diretorio base pt pl salvar w
              = recompilar pd diretorio base pt pl salvar (cwd w)
                  (log_event Input (log_event (Exists (output_arquivo (cwd w) base)) w\<lparr>stdin := rs\<rparr>))
          \<and> take (length (trace w) + 3) (trace (snd (compilar_dados pd diretorio base pt pl salvar w)))
              = trace w @ [Exists (output_arquivo (cwd w) base), Input, ListDir diretorio])
       \<and> (upper r = ''S'' \<and> dirs w diretorio = Some nomes
            \<and> arquivos = filter (py_in base) (map (path_join diretorio) nomes)
            \<and> res = compilar_dados pd diretorio base pt pl salvar w
            \<and> pre = trace w @ [Exists (output_arquivo (cwd w) base), Input, ListDir diretorio] \<longrightarrow>
            (\<exists>n ws. n \<le> length arquivos
                \<and> trace (snd res) = pre @ map ReadFile (take n arquivos) @ ws
                \<and> (ws = [] \<or> ws = [MakeDirs (output_dir (cwd w))]
                    \<or> ws = [MakeDirs (output_dir (cwd w)), WriteFile (output_arquivo (cwd w) base)]))
          \<and> (\<forall>p. ReadFile p \<in> set (drop (length (trace w)) (trace (snd res))) \<longrightarrow> p \<in> set arquivos)
          \<and> (map (conteudo_formatado pd w) arquivos = map Inr dfs \<longrightarrow>
                (\<exists>ws. trace (snd res) = pre @ map ReadFile arquivos @ ws
                    \<and> (ws = [] \<or> ws = [MakeDirs (output_dir (cwd w))]
                        \<or> ws = [MakeDirs (output_dir (cwd w)),
                                  WriteFile (output_arquivo (cwd w) base)]))
              \<and> (pd_concat dfs = Inl e \<longrightarrow>
                    fst res = Inl e \<and> trace (snd res) = pre @ map ReadFile arquivos)
              \<and> (pd_concat dfs = Inr df0 \<longrightarrow>
                    (\<forall>df. fst res = Inr df \<longrightarrow> df = scale (fator_perdas pt pl) df0)
                  \<and> (\<not> salvar \<longrightarrow>
                        fst res = Inr (scale (fator_perdas pt pl) df0)
                      \<and> trace (snd res) = pre @ map ReadFile arquivos)
                  \<and> (salvar \<and> list_all (\<lambda>q. dirs w q \<noteq> None) (ancestors (output_dir (cwd w)))
                        \<and> dirs w (dirname (output_arquivo (cwd w) base)) \<noteq> None
                        \<and> dirs w (output_arquivo (cwd w) base) = None \<longrightarrow>
                        fst res = Inr (scale (fator_perdas pt pl) df0)
                      \<and> files (snd res) (output_arquivo (cwd w) base)
                          = Some (to_csv pd (scale (fator_perdas pt pl) df0))
                      \<and> trace (snd res) = pre @ map ReadFile arquivos
                          @ [MakeDirs (output_dir (cwd w)), WriteFile (output_arquivo (cwd w) base)])))
          \<and> (k < length arquivos
                \<and> map (conteudo_formatado pd w) (take k arquivos) = map Inr dfs
                \<and> conteudo_formatado pd w (arquivos ! k) = Inl e \<longrightarrow>
                fst res = Inl e \<and> trace (snd res) = pre @ map ReadFile (take (Suc k) arquivos)))
       \<and> (upper r = ''N'' \<longrightarrow>
            trace (snd (compilar_dados pd diretorio base pt pl salvar w))
              = trace w @ [Exists (output_arquivo (cwd w) base), Input,
                           ReadFile (output_arquivo (cwd w) base)]
          \<and> so_leitura w (snd (compilar_dados pd diretorio base pt pl salvar w))
          \<and> fst (compilar_dados pd diretorio base pt pl salvar w)
              = (case files w (output_arquivo (cwd w) base) of
                   None \<Rightarrow> Inl IsADirectoryError
                 | Some txt \<Rightarrow> read_csv_cached pd txt))"
proof (intro conjI)
  let ?out = "output_arquivo (cwd w) base"
  let ?w1 = "log_event Input (log_event (Exists ?out) w\<lparr>stdin := rs\<rparr>)"
  let ?C = "compilar_dados pd diretorio base pt pl salvar w"
  show "upper r = ''S'' \<longrightarrow>
            ?C = recompilar pd diretorio base pt pl salvar (cwd w) ?w1
          \<and> take (length (trace w) + 3) (trace (snd ?C)) = trace w @ [Exists ?out, Input, ListDir diretorio]"
  proof (intro impI conjI)
    assume s: "upper r = ''S''"
    show c: "?C = recompilar pd diretorio base pt pl salvar (cwd w) ?w1"
      using assms s by (rule compilar_dados_reprocessa)
    have t: "trace ?w1 = trace w @ [Exists ?out, Input]"
      by (simp add: log_event_def)
    from recompilar_trace_listdir [of ?w1 pd diretorio base pt pl salvar "cwd w"]
    show "take (length (trace w) + 3) (trace (snd ?C)) = trace w @ [Exists ?out, Input, ListDir diretorio]"
      unfolding c t by (simp add: eval_nat_numeral)
  qed
next
  let ?out = "output_arquivo (cwd w) base"
  let ?od = "output_dir (cwd w)"
  let ?w1 = "log_event Input (log_event (Exists ?out) w\<lparr>stdin := rs\<rparr>)"
  let ?m = "fator_perdas pt pl"
  let ?R = "recompilar pd diretorio base pt pl salvar (cwd w) ?w1"
  let ?pre = "trace w @ [Exists ?out, Input, ListDir diretorio]"
  let ?ws = "\<lambda>ws. ws = [] \<or> ws = [MakeDirs ?od] \<or> ws = [MakeDirs ?od, WriteFile ?out]"
  have geral: "(\<exists>n ws. n \<le> length arquivos
                \<and> trace (snd ?R) = ?pre @ map ReadFile (take n arquivos) @ ws \<and> ?ws ws)
          \<and> (\<forall>p. ReadFile p \<in> set (drop (length (trace w)) (trace (snd ?R))) \<longrightarrow> p \<in> set arquivos)
          \<and> (map (conteudo_formatado pd w) arquivos = map Inr dfs \<longrightarrow>
                (\<exists>ws. trace (snd ?R) = ?pre @ map ReadFile arquivos @ ws \<and> ?ws ws)
              \<and> (pd_concat dfs = Inl e \<longrightarrow>
                    fst ?R = Inl e \<and> trace (snd ?R) = ?pre @ map ReadFile arquivos)
              \<and> (pd_concat dfs = Inr df0 \<longrightarrow>
                    (\<forall>df. fst ?R = Inr df \<longrightarrow> df = scale ?m df0)
                  \<and> (\<not> salvar \<longrightarrow>
                        fst ?R = Inr (scale ?m df0)
                      \<and> trace (snd ?R) = ?pre @ map ReadFile arquivos)
                  \<and> (salvar \<and> list_all (\<lambda>q. dirs w q \<noteq> None) (ancestors ?od)
                        \<and> dirs w (dirname ?out) \<noteq> None
                        \<and> dirs w ?out = None \<longrightarrow>
                        fst ?R = Inr (scale ?m df0)
                      \<and> files (snd ?R) ?out = Some (to_csv pd (scale ?m df0))
                      \<and> trace (snd ?R) = ?pre @ map ReadFile arquivos @ [MakeDirs ?od, WriteFile ?out])))
          \<and> (k < length arquivos
                \<and> map (conteudo_formatado pd w) (take k arquivos) = map Inr dfs
                \<and> conteudo_formatado pd w (arquivos ! k) = Inl e \<longrightarrow>
                fst ?R = Inl e \<and> trace (snd ?R) = ?pre @ map ReadFile (take (Suc k) arquivos))"
    if d: "dirs w diretorio = Some nomes"
      and a: "arquivos = filter (py_in base) (map (path_join diretorio) nomes)"
  proof -
    have d1: "dirs ?w1 diretorio = Some nomes"
      using d by (simp add: log_event_def)
    have fs: "dirs ?w1 = dirs w" "files ?w1 = files w"
      by (simp_all add: log_event_def)
    have t1: "trace ?w1 @ ListDir diretorio # xs = ?pre @ xs" for xs
      by (simp add: log_event_def)
    have cf: "conteudo_formatado pd ?w1 = conteudo_formatado pd w"
      by (rule conteudo_formatado_fs) (simp_all add: log_event_def)
    have forma: "\<exists>n ws. n \<le> length arquivos
                \<and> trace (snd ?R) = ?pre @ map ReadFile (take n arquivos) @ ws \<and> ?ws ws"
      using recompilar_trace_forma [OF d1 a, of pd pt pl salvar "cwd w"]
      unfolding t1 .
    have leituras: "\<forall>p. ReadFile p \<in> set (drop (length (trace w)) (trace (snd ?R))) \<longrightarrow> p \<in> set arquivos"
    proof (intro allI impI)
      fix p
      assume "ReadFile p \<in> set (drop (length (trace w)) (trace (snd ?R)))"
      moreover from forma obtain n ws where
        "trace (snd ?R) = ?pre @ map ReadFile (take n arquivos) @ ws" "?ws ws"
        by blast
      ultimately have "p \<in> set (take n arquivos)"
        by auto
      then show "p \<in> set arquivos" by (rule in_set_takeD)
    qed
    have sucesso: "(\<exists>ws. trace (snd ?R) = ?pre @ map ReadFile arquivos @ ws \<and> ?ws ws)
              \<and> (pd_concat dfs = Inl e \<longrightarrow>
                    fst ?R = Inl e \<and> trace (snd ?R) = ?pre @ map ReadFile arquivos)
              \<and> (pd_concat dfs = Inr df0 \<longrightarrow>
                    (\<forall>df. fst ?R = Inr df \<longrightarrow> df = scale ?m df0)
                  \<and> (\<not> salvar \<longrightarrow>
                        fst ?R = Inr (scale ?m df0)
                      \<and> trace (snd ?R) = ?pre @ map ReadFile arquivos)
                  \<and> (salvar \<and> list_all (\<lambda>q. dirs w q \<noteq> None) (ancestors ?od)
                        \<and> dirs w (dirname ?out) \<noteq> None
                        \<and> dirs w ?out = None \<longrightarrow>
                        fst ?R = Inr (scale ?m df0)
                      \<and> files (snd ?R) ?out = Some (to_csv pd (scale ?m df0))
                      \<and> trace (snd ?R) = ?pre @ map ReadFile arquivos @ [MakeDirs ?od, WriteFile ?out]))"
      if ok: "map (conteudo_formatado pd w) arquivos = map Inr dfs"
    proof -
      have ok1: "map (conteudo_formatado pd ?w1) arquivos = map Inr dfs"
        using ok by (simp add: cf)
      note rs = recompilar_sucesso [OF d1 a ok1, where pt = pt and pl = pl and s = salvar
          and d = "cwd w", unfolded t1 fs]
      have p1: "\<exists>ws. trace (snd ?R) = ?pre @ map ReadFile arquivos @ ws \<and> ?ws ws"
        by (rule rs(1))
      have p2: "fst ?R = Inl e \<and> trace (snd ?R) = ?pre @ map ReadFile arquivos"
        if "pd_concat dfs = Inl e"
        using rs(2) [OF that] by simp
      have p3: "\<forall>df. fst ?R = Inr df \<longrightarrow> df = scale ?m df0" if "pd_concat dfs = Inr df0"
        using rs(3) [OF that] by blast
      have p4: "fst ?R = Inr (scale ?m df0) \<and> trace (snd ?R) = ?pre @ map ReadFile arquivos"
        if "pd_concat dfs = Inr df0" "\<not> salvar"
        using rs(4) [OF that] by simp
      have p5: "fst ?R = Inr (scale ?m df0)
                      \<and> files (snd ?R) ?out = Some (to_csv pd (scale ?m df0))
                      \<and> trace (snd ?R) = ?pre @ map ReadFile arquivos @ [MakeDirs ?od, WriteFile ?out]"
        if "pd_concat dfs = Inr df0" "salvar"
          "list_all (\<lambda>q. dirs w q \<noteq> None) (ancestors ?od)"
          "dirs w (dirname ?out) \<noteq> None" "dirs w ?out = None"
        using rs(5) [OF that] .
      from p1 p2 p3 p4 p5 show ?thesis by blast
    qed
    have falha: "fst ?R = Inl e \<and> trace (snd ?R) = ?pre @ map ReadFile (take (Suc k) arquivos)"
      if "k < length arquivos" "map (conteudo_formatado pd w) (take k arquivos) = map Inr dfs"
        "conteudo_formatado pd w (arquivos ! k) = Inl e"
    proof -
      have 2: "map (conteudo_formatado pd ?w1) (take k arquivos) = map Inr dfs"
        using that(2) by (simp add: cf)
      have 3: "conteudo_formatado pd ?w1 (arquivos ! k) = Inl e"
        using that(3) by (simp add: cf)
      from recompilar_falha [OF d1 a that(1) 2 3, of pt pl salvar "cwd w", unfolded t1]
      show ?thesis by simp
    qed
    from forma leituras sucesso falha show ?thesis by blast
  qed
  show "upper r = ''S'' \<and> dirs w diretorio = Some nomes
            \<and> arquivos = filter (py_in base) (map (path_join diretorio) nomes)
            \<and> res = compilar_dados pd diretorio base pt pl salvar w
            \<and> pre = trace w @ [Exists ?out, Input, ListDir diretorio] \<longrightarrow>
            (\<exists>n ws. n \<le> length arquivos
                \<and> trace (snd res) = pre @ map ReadFile (take n arquivos) @ ws
                \<and> (ws = [] \<or> ws = [MakeDirs ?od] \<or> ws = [MakeDirs ?od, WriteFile ?out]))
          \<and> (\<forall>p. ReadFile p \<in> set (drop (length (trace w)) (trace (snd res))) \<longrightarrow> p \<in> set arquivos)
          \<and> (map (conteudo_formatado pd w) arquivos = map Inr dfs \<longrightarrow>
                (\<exists>ws. trace (snd res) = pre @ map ReadFile arquivos @ ws
                    \<and> (ws = [] \<or> ws = [MakeDirs ?od] \<or> ws = [MakeDirs ?od, WriteFile ?out]))
              \<and> (pd_concat dfs = Inl e \<longrightarrow>
                    fst res = Inl e \<and> trace (snd res) = pre @ map ReadFile arquivos)
              \<and> (pd_concat dfs = Inr df0 \<longrightarrow>
                    (\<forall>df. fst res = Inr df \<longrightarrow> df = scale ?m df0)
                  \<and> (\<not> salvar \<longrightarrow>
                        fst res = Inr (scale ?m df0)
                      \<and> trace (snd res) = pre @ map ReadFile arquivos)
                  \<and> (salvar \<and> list_all (\<lambda>q. dirs w q \<noteq> None) (ancestors ?od)
                        \<and> dirs w (dirname ?out) \<noteq> None
                        \<and> dirs w ?out = None \<longrightarrow>
                        fst res = Inr (scale ?m df0)
                      \<and> files (snd res) ?out = Some (to_csv pd (scale ?m df0))
                      \<and> trace (snd res) = pre @ map ReadFile arquivos @ [MakeDirs ?od, WriteFile ?out])))
          \<and> (k < length arquivos
                \<and> map (conteudo_formatado pd w) (take k arquivos) = map Inr dfs
                \<and> conteudo_formatado pd w (arquivos ! k) = Inl e \<longrightarrow>
                fst res = Inl e \<and> trace (snd res) = pre @ map ReadFile (take (Suc k) arquivos))"
  proof (intro impI, elim conjE)
    assume s: "upper r = ''S''" and d: "dirs w diretorio = Some nomes"
      and a: "arquivos = filter (py_in base) (map (path_join diretorio) nomes)"
      and res: "res = compilar_dados pd diretorio base pt pl salvar w"
      and pre: "pre = trace w @ [Exists ?out, Input, ListDir diretorio]"
    have c: "res = ?R"
      unfolding res using assms s by (rule compilar_dados_reprocessa)
    show "(\<exists>n ws. n \<le> length arquivos
                \<and> trace (snd res) = pre @ map ReadFile (take n arquivos) @ ws
                \<and> (ws = [] \<or> ws = [MakeDirs ?od] \<or> ws = [MakeDirs ?od, WriteFile ?out]))
          \<and> (\<forall>p. ReadFile p \<in> set (drop (length (trace w)) (trace (snd res))) \<longrightarrow> p \<in> set arquivos)
          \<and> (map (conteudo_formatado pd w) arquivos = map Inr dfs \<longrightarrow>
                (\<exists>ws. trace (snd res) = pre @ map ReadFile arquivos @ ws
                    \<and> (ws = [] \<or> ws = [MakeDirs ?od] \<or> ws = [MakeDirs ?od, WriteFile ?out]))
              \<and> (pd_concat dfs = Inl e \<longrightarrow>
                    fst res = Inl e \<and> trace (snd res) = pre @ map ReadFile arquivos)
              \<and> (pd_concat dfs = Inr df0 \<longrightarrow>
                    (\<forall>df. fst res = Inr df \<longrightarrow> df = scale ?m df0)
                  \<and> (\<not> salvar \<longrightarrow>
                        fst res = Inr (scale ?m df0)
                      \<and> trace (snd res) = pre @ map ReadFile arquivos)
                  \<and> (salvar \<and> list_all (\<lambda>q. dirs w q \<noteq> None) (ancestors ?od)
                        \<and> dirs w (dirname ?out) \<noteq> None
                        \<and> dirs w ?out = None \<longrightarrow>
                        fst res = Inr (scale ?m df0)
                      \<and> files (snd res) ?out = Some (to_csv pd (scale ?m df0))
                      \<and> trace (snd res) = pre @ map ReadFile arquivos @ [MakeDirs ?od, WriteFile ?out])))
          \<and> (k < length arquivos
                \<and> map (conteudo_formatado pd w) (take k arquivos) = map Inr dfs
                \<and> conteudo_formatado pd w (arquivos ! k) = Inl e \<longrightarrow>
                fst res = Inl e \<and> trace (snd res) = pre @ map ReadFile (take (Suc k) arquivos))"
      unfolding c pre by (rule geral [OF d a])
  qed
next
  let ?out = "output_arquivo (cwd w) base"
  let ?w1 = "log_event Input (log_event (Exists ?out) w\<lparr>stdin := rs\<rparr>)"
  let ?C = "compilar_dados pd diretorio base pt pl salvar w"
  show "upper r = ''N'' \<longrightarrow>
            trace (snd ?C) = trace w @ [Exists ?out, Input, ReadFile ?out]
          \<and> so_leitura w (snd ?C)
          \<and> fst ?C = (case files w ?out of None \<Rightarrow> Inl IsADirectoryError | Some txt \<Rightarrow> read_csv_cached pd txt)"
  proof (intro impI conjI)
    assume n: "upper r = ''N''"
    have c: "?C = ler_compilado pd ?out ?w1"
      using assms n by (rule compilar_dados_reusa)
    show "trace (snd ?C) = trace w @ [Exists ?out, Input, ReadFile ?out]"
      by (simp add: c ler_compilado_unfold log_event_def)
    show "so_leitura w (snd ?C)"
      by (simp add: c ler_compilado_unfold log_event_def so_leitura_def)
    show "fst ?C = (case files w ?out of None \<Rightarrow> Inl IsADirectoryError | Some txt \<Rightarrow> read_csv_cached pd txt)"
      using assms(1) by (auto simp: c ler_compilado_unfold log_event_def existe_def split: option.splits)
  qed
qed

text \<open>
  C5 on the example worlds: reuse, reprocess with one selected raw file, and reprocess
  with a raw file that does not parse.
\<close>

theorem compilar_decisao_witness:
  "fst (compilar_dados exemplo_pd ''/home/u/raw'' ''Solcast'' 0.003 0.01 True (exemplo_mundo_cache ''N''))
       = Inr exemplo_compilado
   \<and> trace (snd (compilar_dados exemplo_pd ''/home/u/raw'' ''Solcast'' 0.003 0.01 True
                   (exemplo_mundo_cache ''N'')))
       = [Exists ''/home/u/data/output/dados_compilados_Solcast.csv'', Input,
          ReadFile ''/home/u/data/output/dados_compilados_Solcast.csv'']
   \<and> fst (compilar_dados exemplo_pd ''/home/u/raw'' ''Solcast'' 0.003 0.01 True (exemplo_mundo_cache ''s''))
       = Inr exemplo_compilado
   \<and> trace (snd (compilar_dados exemplo_pd ''/home/u/raw'' ''Solcast'' 0.003 0.01 True
                   (exemplo_mundo_cache ''s'')))
       = [Exists ''/home/u/data/output/dados_compilados_Solcast.csv'', Input,
          ListDir ''/home/u/raw'', ReadFile ''/home/u/raw/Solcast_2020.csv'',
          MakeDirs ''/home/u/data/output'',
          WriteFile ''/home/u/data/output/dados_compilados_Solcast.csv'']
   \<and> fst (compilar_dados exemplo_pd ''/home/u/raw'' ''Solcast'' 0.003 0.01 True exemplo_mundo_ilegivel)
       = Inl ParserError
   \<and> trace (snd (compilar_dados exemplo_pd ''/home/u/raw'' ''Solcast'' 0.003 0.01 True
                   exemplo_mundo_ilegivel))
       = [Exists ''/home/u/data/output/dados_compilados_Solcast.csv'', Input,
          ListDir ''/home/u/raw'', ReadFile ''/home/u/raw/Solcast_2020.csv'']"
proof -
  let ?out = "''/home/u/data/output/dados_compilados_Solcast.csv''"
  let ?raw = "''/home/u/raw/Solcast_2020.csv''"
  let ?nomes = "[''Solcast_2020.csv'', ''Outra_2020.csv'']"
  let ?T = "\<lparr>columns = [''Energia''], index = [Timestamp 2020 1 1 12 0], cells = [[Some 500]]\<rparr>"
  let ?S = "exemplo_mundo_cache ''s''"
  let ?I = "exemplo_mundo_ilegivel"
  let ?cs = "compilar_dados exemplo_pd ''/home/u/raw'' ''Solcast'' 0.003 0.01 True ?S"
  let ?ci = "compilar_dados exemplo_pd ''/home/u/raw'' ''Solcast'' 0.003 0.01 True ?I"
  let ?pre = "[Exists ?out, Input, ListDir ''/home/u/raw'']"
  have o: "output_arquivo (cwd (exemplo_mundo_cache x)) ''Solcast'' = ?out"
    "output_arquivo (cwd ?I) ''Solcast'' = ?out"
    "output_dir (cwd (exemplo_mundo_cache x)) = ''/home/u/data/output''" for x
    by (simp_all add: exemplo_defs2 output_arquivo_def output_dir_def path_join_def)
  have e: "existe (exemplo_mundo_cache x) (output_arquivo (cwd (exemplo_mundo_cache x)) ''Solcast'')" for x
    unfolding o by (simp add: exemplo_defs existe_def)
  have s: "stdin (exemplo_mundo_cache x) = x # []" for x
    by (simp add: exemplo_defs)
  have e': "existe ?I (output_arquivo (cwd ?I) ''Solcast'')"
    unfolding o by (simp add: exemplo_defs2 existe_def)
  have s': "stdin ?I = ''s'' # []"
    by (simp add: exemplo_defs2)
  have t: "trace (exemplo_mundo_cache x) = []" "trace ?I = []" for x
    by (simp_all add: exemplo_defs2)
  have f: "files (exemplo_mundo_cache x) ?out = Some ''2020-01-01 12:00:00,493.515''" for x
    by (simp add: exemplo_defs)
  have r: "read_csv_cached exemplo_pd ''2020-01-01 12:00:00,493.515'' = Inr exemplo_compilado"
    by (simp add: exemplo_pd_def)
  have u: "upper ''N'' = ''N''" "upper ''s'' = ''S''"
    by (simp_all add: upper_def upper_char_def)
  have hs: "upper ''s'' = ''S'' \<and> dirs ?S ''/home/u/raw'' = Some ?nomes
      \<and> [?raw] = filter (py_in ''Solcast'') (map (path_join ''/home/u/raw'') ?nomes)
      \<and> ?cs = ?cs
      \<and> ?pre = trace ?S @ [Exists (output_arquivo (cwd ?S) ''Solcast''), Input, ListDir ''/home/u/raw'']"
    unfolding o t by (simp add: u exemplo_defs path_join_def)
  have hi: "upper ''s'' = ''S'' \<and> dirs ?I ''/home/u/raw'' = Some ?nomes
      \<and> [?raw] = filter (py_in ''Solcast'') (map (path_join ''/home/u/raw'') ?nomes)
      \<and> ?ci = ?ci
      \<and> ?pre = trace ?I @ [Exists (output_arquivo (cwd ?I) ''Solcast''), Input, ListDir ''/home/u/raw'']"
    unfolding o t by (simp add: u exemplo_defs2 path_join_def)
  have ok: "map (conteudo_formatado exemplo_pd ?S) [?raw] = map Inr [?T]"
    by (simp add: conteudo_formatado_def exemplo_defs formatar_def zera_negativos_def
        div_1000_def rename_kW_def)
  have c: "pd_concat [?T] = Inr ?T"
    by (simp add: pd_concat_def)
  have sc: "scale (fator_perdas 0.003 0.01) ?T = exemplo_compilado"
    by (simp add: scale_def fator_perdas_def exemplo_compilado_def)
  have h5: "True \<and> list_all (\<lambda>q. dirs ?S q \<noteq> None) (ancestors (output_dir (cwd ?S)))
      \<and> dirs ?S (dirname (output_arquivo (cwd ?S) ''Solcast'')) \<noteq> None
      \<and> dirs ?S (output_arquivo (cwd ?S) ''Solcast'') = None"
    unfolding o by (simp add: exemplo_ancestors exemplo_defs dirname_def)
  have fl: "0 < length [?raw]
      \<and> map (conteudo_formatado exemplo_pd ?I) (take 0 [?raw]) = map Inr []
      \<and> conteudo_formatado exemplo_pd ?I ([?raw] ! 0) = Inl ParserError"
    by (simp add: conteudo_formatado_def exemplo_defs2)
  note n1 = compilar_decisao [OF e s, of "''N''" exemplo_pd "''/home/u/raw''" "0.003" "0.01" True,
      THEN conjunct2, THEN conjunct2, THEN mp, OF u(1)]
  note s1 = compilar_decisao [OF e s, where r = "''s''" and pd = exemplo_pd
      and diretorio = "''/home/u/raw''" and pt = "0.003" and pl = "0.01" and salvar = True
      and nomes = ?nomes and arquivos = "[?raw]" and res = ?cs and pre = ?pre
      and dfs = "[?T]" and ?df0.0 = ?T,
      THEN conjunct2, THEN conjunct1, THEN mp, OF hs]
  note s2 = s1 [THEN conjunct2, THEN conjunct2, THEN conjunct1, THEN mp, OF ok,
      THEN conjunct2, THEN conjunct2, THEN mp, OF c,
      THEN conjunct2, THEN conjunct2, THEN mp, OF h5]
  note f1 = compilar_decisao [OF e' s', where pd = exemplo_pd
      and diretorio = "''/home/u/raw''" and pt = "0.003" and pl = "0.01" and salvar = True
      and nomes = ?nomes and arquivos = "[?raw]" and res = ?ci and pre = ?pre
      and dfs = "[]" and k = 0 and e = ParserError,
      THEN conjunct2, THEN conjunct1, THEN mp, OF hi]
  note f2 = f1 [THEN conjunct2, THEN conjunct2, THEN conjunct2, THEN mp, OF fl]
  have p1: "fst (compilar_dados exemplo_pd ''/home/u/raw'' ''Solcast'' 0.003 0.01 True (exemplo_mundo_cache ''N''))
       = Inr exemplo_compilado"
    "trace (snd (compilar_dados exemplo_pd ''/home/u/raw'' ''Solcast'' 0.003 0.01 True
                   (exemplo_mundo_cache ''N'')))
       = [Exists ?out, Input, ReadFile ?out]"
    using n1 unfolding o t f by (simp_all add: r)
  have p2: "fst ?cs = Inr exemplo_compilado"
    "trace (snd ?cs) = [Exists ?out, Input, ListDir ''/home/u/raw'', ReadFile ?raw,
          MakeDirs ''/home/u/data/output'', WriteFile ?out]"
    using s2 unfolding o sc by simp_all
  have p3: "fst ?ci = Inl ParserError"
    "trace (snd ?ci) = [Exists ?out, Input, ListDir ''/home/u/raw'', ReadFile ?raw]"
    using f2 by simp_all
  from p1 p2 p3 show ?thesis by (intro conjI)
qed

text \<open>
  Claim C6. The cache gate \<open>processar_arquivo\<close> answers true without consulting the
  console when the output path does not exist. When the path exists it reads one
  response from the console: a response whose upper case is \<open>S\<close> (reprocess) gives
  true, one whose upper case is \<open>N\<close> (reuse) gives false, and any other response
  raises (the exception of the module is \<open>TypeError\<close>); no default is chosen.
\<close>

theorem gate_contract:
  "(\<not> existe w p \<longrightarrow>
      fst (processar_arquivo p w) = Inr True
      \<and> stdin (snd (processar_arquivo p w)) = stdin w
      \<and> trace (snd (processar_arquivo p w)) = trace w @ [Exists p])
   \<and> (existe w p \<and> stdin w = r # rs \<longrightarrow>
        trace (snd (processar_arquivo p w)) = trace w @ [Exists p, Input]
      \<and> stdin (snd (processar_arquivo p w)) = rs
      \<and> (upper r = ''S'' \<longrightarrow> fst (processar_arquivo p w) = Inr True)
      \<and> (upper r = ''N'' \<longrightarrow> fst (processar_arquivo p w) = Inr False)
      \<and> (upper r \<noteq> ''S'' \<and> upper r \<noteq> ''N'' \<longrightarrow> fst (processar_arquivo p w) = Inl TypeError))"
  by (auto simp: processar_arquivo_ausente processar_arquivo_presente log_event_def)

text \<open>
  The four cases of C6 on the example worlds.
\<close>

theorem gate_contract_witness:
  "fst (processar_arquivo ''/home/u/data/output/dados_compilados_Solcast.csv'' exemplo_mundo) = Inr True
   \<and> fst (processar_arquivo ''/home/u/data/output/dados_compilados_Solcast.csv''
            (exemplo_mundo_cache ''s'')) = Inr True
   \<and> fst (processar_arquivo ''/home/u/data/output/dados_compilados_Solcast.csv''
            (exemplo_mundo_cache ''N'')) = Inr False
   \<and> fst (processar_arquivo ''/home/u/data/output/dados_compilados_Solcast.csv''
            (exemplo_mundo_cache ''talvez'')) = Inl TypeError"
  using gate_contract [of exemplo_mundo "''/home/u/data/output/dados_compilados_Solcast.csv''"]
    gate_contract [of "exemplo_mundo_cache ''s''" "''/home/u/data/output/dados_compilados_Solcast.csv''" "''s''" "[]"]
    gate_contract [of "exemplo_mundo_cache ''N''" "''/home/u/data/output/dados_compilados_Solcast.csv''" "''N''" "[]"]
    gate_contract [of "exemplo_mundo_cache ''talvez''" "''/home/u/data/output/dados_compilados_Solcast.csv''" "''talvez''" "[]"]
  by (simp add: exemplo_defs existe_def upper_def upper_char_def)




text \<open>
  Claim C8. With transformer loss 0.003 and line loss 0.01, a raw file whose single row
  holds -50 compiles to the value 0; a raw file whose single row holds 500000 is
  normalized to 500 and compiles to \<open>500 * 0.997 * 0.99 = 493.515\<close>.
\<close>

theorem exemplo_linha_unica:
  assumes "\<not> existe w (output_arquivo (cwd w) base)"
    and "dirs w diretorio = Some [nome]"
    and "py_in base (path_join diretorio nome)"
    and "files w (path_join diretorio nome) = Some txt"
    and "read_csv_raw pd txt = Inr \<lparr>columns = [''kW''], index = [s], cells = [[Some v]]\<rparr>"
    and "to_datetime pd s = Some t"
  shows "(v = - 50 \<longrightarrow>
           fst (compilar_dados pd diretorio base 0.003 0.01 False w)
             = Inr \<lparr>columns = [''Energia''], index = [t], cells = [[Some 0]]\<rparr>)
       \<and> (v = 500000 \<longrightarrow>
           fst (ler_e_formatar_dados pd (path_join diretorio nome) w)
             = Inr \<lparr>columns = [''Energia''], index = [t], cells = [[Some 500]]\<rparr>
         \<and> fst (compilar_dados pd diretorio base 0.003 0.01 False w)
             = Inr \<lparr>columns = [''Energia''], index = [t], cells = [[Some (493515 / 1000)]]\<rparr>)"
  using assms
  by (simp add: compilar_dados_ausente recompilar_def listar_arquivos_def
      ler_e_formatar_dados_def io_bind_def io_return_def io_raise_def
      listdir_def read_text_def log_event_def formatar_def
      zera_negativos_def div_1000_def rename_kW_def scale_def fator_perdas_def pd_concat_def)

text \<open>
  C8 on the two example files.
\<close>

theorem exemplo_linha_unica_witness:
  "fst (compilar_dados exemplo_pd ''/home/u/raw'' ''Solcast'' 0.003 0.01 False
         (exemplo_mundo_unico ''01/01/20 00:00;-50''))
     = Inr \<lparr>columns = [''Energia''], index = [Timestamp 2020 1 1 0 0], cells = [[Some 0]]\<rparr>
   \<and> fst (ler_e_formatar_dados exemplo_pd ''/home/u/raw/Solcast_2020.csv''
         (exemplo_mundo_unico ''01/01/20 12:00;500000''))
     = Inr \<lparr>columns = [''Energia''], index = [Timestamp 2020 1 1 12 0], cells = [[Some 500]]\<rparr>
   \<and> fst (compilar_dados exemplo_pd ''/home/u/raw'' ''Solcast'' 0.003 0.01 False
         (exemplo_mundo_unico ''01/01/20 12:00;500000''))
     = Inr \<lparr>columns = [''Energia''], index = [Timestamp 2020 1 1 12 0],
            cells = [[Some (493515 / 1000)]]\<rparr>"
proof -
  have a1: "\<not> existe (exemplo_mundo_unico c) (output_arquivo (cwd (exemplo_mundo_unico c)) ''Solcast'')" for c
    by (simp add: exemplo_mundo_unico_def existe_def output_arquivo_def output_dir_def path_join_def)
  have a2: "dirs (exemplo_mundo_unico c) ''/home/u/raw'' = Some [''Solcast_2020.csv'']" for c
    by (simp add: exemplo_mundo_unico_def)
  have a3: "py_in ''Solcast'' (path_join ''/home/u/raw'' ''Solcast_2020.csv'')"
    by (simp add: path_join_def)
  have a4: "files (exemplo_mundo_unico c) (path_join ''/home/u/raw'' ''Solcast_2020.csv'') = Some c" for c
    by (simp add: exemplo_mundo_unico_def path_join_def)
  have n5: "read_csv_raw exemplo_pd ''01/01/20 00:00;-50''
      = Inr \<lparr>columns = [''kW''], index = [''01/01/20 00:00''], cells = [[Some (- 50)]]\<rparr>"
    by (simp add: exemplo_pd_def exemplo_negativo_def)
  have n6: "to_datetime exemplo_pd ''01/01/20 00:00'' = Some (Timestamp 2020 1 1 0 0)"
    by (simp add: exemplo_pd_def)
  have p5: "read_csv_raw exemplo_pd ''01/01/20 12:00;500000''
      = Inr \<lparr>columns = [''kW''], index = [''01/01/20 12:00''], cells = [[Some 500000]]\<rparr>"
    by (simp add: exemplo_pd_def exemplo_positivo_def)
  have p6: "to_datetime exemplo_pd ''01/01/20 12:00'' = Some (Timestamp 2020 1 1 12 0)"
    by (simp add: exemplo_pd_def)
  have j: "path_join ''/home/u/raw'' ''Solcast_2020.csv'' = ''/home/u/raw/Solcast_2020.csv''"
    by (simp add: path_join_def)
  from exemplo_linha_unica [OF a1 a2 a3 a4 n5 n6] exemplo_linha_unica [OF a1 a2 a3 a4 p5 p6]
  show ?thesis by (simp add: j)
qed

text \<open>
  Claim C9. The comparison of the cache gate ignores case: with the output path present,
  \<open>S\<close> and \<open>s\<close> give true, \<open>N\<close> and \<open>n\<close> give false, and \<open>TypeError\<close> is raised exactly
  for the responses whose upper case is neither \<open>S\<close> nor \<open>N\<close>; no accepted response
  raises.
\<close>

theorem gate_case_insensitive:
  assumes "existe w p" and "stdin w = r # rs"
  shows "(r = ''S'' \<or> r = ''s'' \<longrightarrow> fst (processar_arquivo p w) = Inr True)
       \<and> (r = ''N'' \<or> r = ''n'' \<longrightarrow> fst (processar_arquivo p w) = Inr False)
       \<and> (fst (processar_arquivo p w) = Inl TypeError \<longleftrightarrow> upper r \<noteq> ''S'' \<and> upper r \<noteq> ''N'')
       \<and> (\<forall>e. fst (processar_arquivo p w) = Inl e \<longrightarrow> e = TypeError \<and> r \<notin> {''S'', ''s'', ''N'', ''n''})"
  using assms by (auto simp: processar_arquivo_presente upper_S upper_N)

text \<open>
  C9 on the example world, for five responses.
\<close>

theorem gate_case_insensitive_witness:
  "fst (processar_arquivo ''/home/u/data/output/dados_compilados_Solcast.csv''
            (exemplo_mundo_cache ''S'')) = Inr True
   \<and> fst (processar_arquivo ''/home/u/data/output/dados_compilados_Solcast.csv''
            (exemplo_mundo_cache ''s'')) = Inr True
   \<and> fst (processar_arquivo ''/home/u/data/output/dados_compilados_Solcast.csv''
            (exemplo_mundo_cache ''N'')) = Inr False
   \<and> fst (processar_arquivo ''/home/u/data/output/dados_compilados_Solcast.csv''
            (exemplo_mundo_cache ''n'')) = Inr False
   \<and> fst (processar_arquivo ''/home/u/data/output/dados_compilados_Solcast.csv''
            (exemplo_mundo_cache ''sim'')) = Inl TypeError"
proof -
  let ?p = "''/home/u/data/output/dados_compilados_Solcast.csv''"
  have e: "existe (exemplo_mundo_cache x) ?p" for x
    by (simp add: exemplo_defs existe_def)
  have s: "stdin (exemplo_mundo_cache x) = x # []" for x
    by (simp add: exemplo_defs)
  show ?thesis
    using gate_case_insensitive [OF e s, of "''S''"] gate_case_insensitive [OF e s, of "''s''"]
      gate_case_insensitive [OF e s, of "''N''"] gate_case_insensitive [OF e s, of "''n''"]
      gate_case_insensitive [OF e s, of "''sim''"]
    by (simp add: upper_def upper_char_def)
qed

text \<open>
  Claim C10. A call of \<open>compilar_dados\<close> with \<open>salvar_dados\<close> false writes nothing: the
  working directory, every directory listing and every file are as before, and the
  events it adds to the trace contain neither a \<open>MakeDirs\<close> nor a \<open>WriteFile\<close>. This holds
  for every such call, in particular for those that recompute.
\<close>

theorem compilar_sem_salvar_nao_escreve:
  "so_leitura w (snd (compilar_dados pd diretorio base pt pl False w))"
  unfolding compilar_dados_def
  by (intro so_leitura_bind so_leitura_getcwd so_leitura_processar_arquivo)
     (auto simp: so_leitura_recompilar so_leitura_ler_compilado)

text \<open>
  C10 on the example world, where the call recomputes.
\<close>

theorem compilar_sem_salvar_nao_escreve_witness:
  "so_leitura exemplo_mundo
     (snd (compilar_dados exemplo_pd ''/home/u/raw'' ''Solcast'' 0.003 0.01 False exemplo_mundo))
   \<and> files (snd (compilar_dados exemplo_pd ''/home/u/raw'' ''Solcast'' 0.003 0.01 False exemplo_mundo))
       = files exemplo_mundo
   \<and> dirs (snd (compilar_dados exemplo_pd ''/home/u/raw'' ''Solcast'' 0.003 0.01 False exemplo_mundo))
       ''/home/u/data/output'' = None"
  using compilar_sem_salvar_nao_escreve [of exemplo_mundo exemplo_pd "''/home/u/raw''" "''Solcast''" "0.003" "0.01"]
  by (simp add: so_leitura_def exemplo_mundo_def)

end
